theory Spec2Isabelle
  imports Main "HOL-Library.Word"
begin

section \<open>The file-to-DAG pipeline of the UnixFS importer\<close>

text \<open>
  A shallow embedding of \<^verbatim>\<open>dag-builder/file/buffer-importer.js\<close> (the Leaf Builder) and
  \<^verbatim>\<open>dag-builder/file/index.js\<close> (the batcher \<^verbatim>\<open>buildFileBatch\<close> and the
  \<^verbatim>\<open>reducer\<close>).

  Conventions of the embedding:
  \<^item> a \<^verbatim>\<open>Uint8Array\<close> is a list of bytes; only its length and its identity matter here;
  \<^item> an optional JavaScript property is an \<open>option\<close>; \<^verbatim>\<open>undefined\<close> is \<open>None\<close>;
  \<^item> a JavaScript number that holds a size is an \<open>int\<close> (a descriptor handed to the
    reducer by a tree strategy may carry any number, also a negative one); a number is
    truthy when it is not zero;
  \<^item> an \<^verbatim>\<open>async\<close> function is a function of the world \<open>'w\<close> (the block store and the
    progress sink) that returns its result, an error or a value, together with the
    world it leaves behind;
  \<^item> the record fields carry a prefix where JavaScript reuses a property name in
    several objects: \<open>file_\<close> for the file, \<open>u_\<close> for the UnixFS metadata, \<open>cid_\<close> for
    the content address, \<open>d_\<close> for a node descriptor, \<open>p_\<close> for the options of persist.
\<close>

subsection \<open>Data model\<close>

type_synonym bytes = "8 word list"

text \<open>Modification time: seconds and nanoseconds.\<close>

type_synonym Mtime = "int \<times> nat"

text \<open>
  The failures a collaborator can reject or throw with, in the specification's taxonomy.
  The two source files construct none of them: they only let the failure of a call they
  make pass through.
\<close>

datatype error = StoreError | ConfigError | EncodingError | AccountingError

text \<open>The codec numbers of the multicodec table that the two files compare and pass on.\<close>

definition rawCodec_code :: nat where
  "rawCodec_code = 0x55"

definition mc_RAW :: nat where
  "mc_RAW = 0x55"

definition mc_DAG_PB :: nat where
  "mc_DAG_PB = 0x70"

text \<open>A content address; the reducer reads its \<^verbatim>\<open>code\<close> only.\<close>

record CID =
  cid_version :: nat
  cid_code :: nat
  cid_multihash :: bytes

text \<open>The file being imported: its chunk stream, path, and declared mtime and mode.\<close>

record File =
  file_content :: "bytes list"
  file_path :: "string option"
  file_mtime :: "Mtime option"
  file_mode :: "nat option"

text \<open>The UnixFS metadata object, with the properties the two files read and write.\<close>

record UnixFS =
  u_type :: string
  u_data :: "bytes option"
  u_mtime :: "Mtime option"
  u_mode :: "nat option"
  u_blockSizes :: "int list"

text \<open>
  Modelled from the spec: the constructor of the UnixFS metadata class (package
  \<^verbatim>\<open>ipfs-unixfs\<close> of the repository, absent from the sources at hand). It builds the
  minimal node metadata from a declared type, the content, and the mtime and mode it is
  given, with an empty per-child block-size list.
\<close>

definition new_UnixFS :: "string \<Rightarrow> bytes option \<Rightarrow> Mtime option \<Rightarrow> nat option \<Rightarrow> UnixFS" where
  "new_UnixFS t dat mt md =
     \<lparr>u_type = t, u_data = dat, u_mtime = mt, u_mode = md, u_blockSizes = []\<rparr>"

text \<open>
  Modelled from the spec: \<^verbatim>\<open>addBlockSize\<close> of the same class appends one logical
  contribution to the node's per-child block-size list.
\<close>

definition addBlockSize :: "UnixFS \<Rightarrow> int \<Rightarrow> UnixFS" where
  "addBlockSize f n = f\<lparr>u_blockSizes := u_blockSizes f @ [n]\<rparr>"

text \<open>The untyped structure handed to the node serializer: metadata bytes and links.\<close>

record PBLink =
  Name :: string
  Tsize :: int
  Hash :: CID

record PBNode =
  Data :: bytes
  Links :: "PBLink list"

text \<open>The node descriptor (\<^verbatim>\<open>cid\<close>, \<^verbatim>\<open>path\<close>, \<^verbatim>\<open>unixfs\<close>, \<^verbatim>\<open>size\<close>, \<^verbatim>\<open>single\<close>).\<close>

record Descriptor =
  d_cid :: CID
  d_path :: "string option"
  d_unixfs :: "UnixFS option"
  d_size :: int
  d_single :: bool

text \<open>The options object that \<^verbatim>\<open>persist\<close> receives.\<close>

record PersistOptions =
  p_codec :: "nat option"
  p_cidVersion :: nat
  p_hasher :: string
  p_onlyHash :: bool

text \<open>The block store interface: the reducer calls \<^verbatim>\<open>block.get\<close>.\<close>

record 'w BlockAPI =
  blk_get :: "CID \<Rightarrow> 'w \<Rightarrow> (error + bytes) \<times> 'w"

text \<open>The importer options the two files read.\<close>

record 'w ImporterOptions =
  rawLeaves :: bool
  reduceSingleLeafToSelf :: bool
  leafType :: string
  cidVersion :: nat
  hasher :: string
  onlyHash :: bool
  blockWriteConcurrency :: nat
  progress :: "nat \<Rightarrow> string option \<Rightarrow> 'w \<Rightarrow> 'w"

text \<open>
  The functions the two files import and that are not among the sources at hand
  (\<^verbatim>\<open>persist\<close> of \<^verbatim>\<open>utils/persist\<close>, \<^verbatim>\<open>encode\<close> and \<^verbatim>\<open>prepare\<close> of the node
  serializer, \<^verbatim>\<open>marshal\<close> and \<^verbatim>\<open>fileSize\<close> of the UnixFS class) are parameters of the
  model: every theorem below holds for every choice of them. \<^verbatim>\<open>fileSize\<close> may answer
  \<^verbatim>\<open>undefined\<close>.
\<close>

record 'w Imports =
  persist :: "bytes \<Rightarrow> 'w BlockAPI \<Rightarrow> PersistOptions \<Rightarrow> 'w \<Rightarrow> (error + CID) \<times> 'w"
  encode :: "PBNode \<Rightarrow> bytes"
  prepare :: "PBNode \<Rightarrow> PBNode"
  marshal :: "UnixFS \<Rightarrow> bytes"
  fileSize :: "UnixFS \<Rightarrow> int option"

subsection \<open>The Leaf Builder (\<^verbatim>\<open>buffer-importer.js\<close>)\<close>

text \<open>
  The options object \<^verbatim>\<open>opts\<close> of a task as first built (lines 26 to 31), and the
  deferred task itself (lines 21 to 52): it reports progress, chooses the bare or the
  framed form, persists the bytes and returns the descriptor. A rejection of
  \<^verbatim>\<open>persist\<close> is the task's rejection.
\<close>

definition task_opts :: "'w ImporterOptions \<Rightarrow> PersistOptions" where
  "task_opts options =
     \<lparr>p_codec = Some mc_DAG_PB, p_cidVersion = cidVersion options,
      p_hasher = hasher options, p_onlyHash = onlyHash options\<rparr>"

definition bufferImporter_task ::
  "'w Imports \<Rightarrow> File \<Rightarrow> 'w BlockAPI \<Rightarrow> 'w ImporterOptions \<Rightarrow> bytes \<Rightarrow> 'w
     \<Rightarrow> (error + Descriptor) \<times> 'w" where
  "bufferImporter_task I file block options buffer w =
     (let w0 = progress options (length buffer) (file_path file) w;
          opts = task_opts options;
          (opts1, unixfs, buffer1) =
            (if rawLeaves options
             then (opts\<lparr>p_codec := Some mc_RAW, p_cidVersion := 1\<rparr>, None, buffer)
             else
               (let u = new_UnixFS (leafType options) (Some buffer)
                          (file_mtime file) (file_mode file)
                in (opts, Some u,
                    encode I (prepare I \<lparr>Data = marshal I u, Links = []\<rparr>))))
      in case persist I buffer1 block opts1 w0 of
           (Inl e, w1) \<Rightarrow> (Inl e, w1)
         | (Inr c, w1) \<Rightarrow>
             (Inr \<lparr>d_cid = c, d_path = None, d_unixfs = unixfs,
                   d_size = int (length buffer1), d_single = False\<rparr>, w1))"

text \<open>The generator yields one task per chunk, in chunk order (lines 19 to 54).\<close>

definition bufferImporter ::
  "'w Imports \<Rightarrow> File \<Rightarrow> 'w BlockAPI \<Rightarrow> 'w ImporterOptions
     \<Rightarrow> ('w \<Rightarrow> (error + Descriptor) \<times> 'w) list" where
  "bufferImporter I file block options =
     map (bufferImporter_task I file block options) (file_content file)"

subsection \<open>The batcher (\<^verbatim>\<open>buildFileBatch\<close>, \<^verbatim>\<open>index.js\<close> lines 34 to 63)\<close>

text \<open>
  \<^verbatim>\<open>parallelBatch\<close> delivers the results of the tasks in task order, so the loop of
  \<^verbatim>\<open>buildFileBatch\<close> sees a finite sequence of entries that either ends or is cut by
  the rejection of a task. The generator's local variables are \<^verbatim>\<open>count\<close> and
  \<^verbatim>\<open>previous\<close>; an entry is an object and hence truthy, so \<^verbatim>\<open>previous\<close> is falsy
  exactly when it holds no entry.
\<close>

record BatchState =
  count :: int
  previous :: "Descriptor option"

definition batch_init :: BatchState where
  "batch_init = \<lparr>count = - 1, previous = None\<rparr>"

text \<open>One turn of the loop body: the descriptors it yields and the state it leaves.\<close>

definition batch_entry :: "BatchState \<Rightarrow> Descriptor \<Rightarrow> Descriptor list \<times> BatchState" where
  "batch_entry s entry =
     (let s1 = s\<lparr>count := count s + 1\<rparr>
      in if count s1 = 0 then ([], s1\<lparr>previous := Some entry\<rparr>)
         else (case (if count s1 = 1 then previous s1 else None) of
                 Some p \<Rightarrow> ([p, entry], s1\<lparr>previous := None\<rparr>)
               | None \<Rightarrow> ([entry], s1)))"

text \<open>After the loop (lines 59 to 62): a still buffered entry is marked single and yielded.\<close>

definition batch_end :: "BatchState \<Rightarrow> Descriptor list" where
  "batch_end s =
     (case previous s of Some p \<Rightarrow> [p\<lparr>d_single := True\<rparr>] | None \<Rightarrow> [])"

fun batch_loop :: "BatchState \<Rightarrow> Descriptor list \<Rightarrow> Descriptor list \<times> BatchState" where
  "batch_loop s [] = ([], s)"
| "batch_loop s (entry # rest) =
     (let (ys, s1) = batch_entry s entry;
          (zs, s2) = batch_loop s1 rest
      in (ys @ zs, s2))"

text \<open>
  The whole generator on a sequence of entries and the way the sequence ends
  (\<open>None\<close>: it is exhausted; \<open>Some e\<close>: a task rejected with \<open>e\<close> after these entries,
  which ends the generator at once with the same rejection).
\<close>

definition buildFileBatch ::
  "Descriptor list \<Rightarrow> error option \<Rightarrow> Descriptor list \<times> error option" where
  "buildFileBatch entries ending =
     (let (ys, s) = batch_loop batch_init entries
      in case ending of
           None \<Rightarrow> (ys @ batch_end s, None)
         | Some e \<Rightarrow> (ys, Some e))"

subsection \<open>The reducer (\<^verbatim>\<open>index.js\<close> lines 70 to 190)\<close>

text \<open>The importer options as \<^verbatim>\<open>persist\<close> reads them: they name no codec.\<close>

definition persist_view :: "'w ImporterOptions \<Rightarrow> PersistOptions" where
  "persist_view options =
     \<lparr>p_codec = None, p_cidVersion = cidVersion options,
      p_hasher = hasher options, p_onlyHash = onlyHash options\<rparr>"

text \<open>
  The single-leaf path (lines 76 to 125). The leaf object is updated in place, so the
  function returns the leaf as it is left behind next to the result: when
  \<^verbatim>\<open>persist\<close> rejects, the leaf already carries the new metadata.
\<close>

definition reducer_single ::
  "'w Imports \<Rightarrow> File \<Rightarrow> 'w BlockAPI \<Rightarrow> 'w ImporterOptions \<Rightarrow> Descriptor \<Rightarrow> 'w
     \<Rightarrow> (error + Descriptor) \<times> Descriptor \<times> 'w" where
  "reducer_single I file block options leaf w =
     (if cid_code (d_cid leaf) = rawCodec_code \<and>
         (file_mtime file \<noteq> None \<or> file_mode file \<noteq> None)
      then
        (case blk_get block (d_cid leaf) w of
           (Inl e, w1) \<Rightarrow> (Inl e, leaf, w1)
         | (Inr buffer, w1) \<Rightarrow>
             (let u = new_UnixFS ''file'' (Some buffer) (file_mtime file) (file_mode file);
                  leaf1 = leaf\<lparr>d_unixfs := Some u\<rparr>;
                  buffer1 = encode I (prepare I \<lparr>Data = marshal I u, Links = []\<rparr>)
              in case persist I buffer1 block
                        ((persist_view options)
                           \<lparr>p_codec := Some mc_DAG_PB, p_hasher := hasher options,
                            p_cidVersion := cidVersion options\<rparr>) w1 of
                   (Inl e, w2) \<Rightarrow> (Inl e, leaf1, w2)
                 | (Inr c, w2) \<Rightarrow>
                     (let leaf2 = leaf1\<lparr>d_cid := c, d_size := int (length buffer1)\<rparr>
                      in (Inr \<lparr>d_cid = d_cid leaf2, d_path = file_path file,
                               d_unixfs = d_unixfs leaf2, d_size = d_size leaf2,
                               d_single = False\<rparr>, leaf2, w2))))
      else
        (Inr \<lparr>d_cid = d_cid leaf, d_path = file_path file, d_unixfs = d_unixfs leaf,
              d_size = d_size leaf, d_single = False\<rparr>, leaf, w))"

text \<open>The predicate of \<^verbatim>\<open>filter\<close> (lines 136 to 146), with JavaScript's truthiness written out.\<close>

definition keep_leaf :: "'w Imports \<Rightarrow> Descriptor \<Rightarrow> bool" where
  "keep_leaf I leaf =
     (if cid_code (d_cid leaf) = rawCodec_code \<and> d_size leaf \<noteq> 0 then True
      else if (case d_unixfs leaf of
                 None \<Rightarrow> False
               | Some u \<Rightarrow>
                   u_data u = None \<and>
                   (case fileSize I u of None \<Rightarrow> False | Some n \<Rightarrow> n \<noteq> 0))
      then True
      else (case d_unixfs leaf of
              None \<Rightarrow> False
            | Some u \<Rightarrow> (case u_data u of None \<Rightarrow> False | Some dat \<Rightarrow> length dat \<noteq> 0)))"

text \<open>
  The callback of \<^verbatim>\<open>map\<close> (lines 147 to 172): it adds one block size to the parent's
  metadata \<open>f\<close> and returns the link. In \<^verbatim>\<open>(leaf.unixfs && leaf.unixfs.fileSize()) || 0\<close>
  a missing metadata object, an undefined file size and a file size of zero all give 0.
\<close>

definition link_leaf :: "'w Imports \<Rightarrow> UnixFS \<Rightarrow> Descriptor \<Rightarrow> PBLink \<times> UnixFS" where
  "link_leaf I f leaf =
     (if cid_code (d_cid leaf) = rawCodec_code
      then (\<lparr>Name = [], Tsize = d_size leaf, Hash = d_cid leaf\<rparr>,
            addBlockSize f (d_size leaf))
      else
        (\<lparr>Name = [], Tsize = d_size leaf, Hash = d_cid leaf\<rparr>,
         (case d_unixfs leaf of
            None \<Rightarrow> addBlockSize f 0
          | Some u \<Rightarrow>
              (case u_data u of
                 None \<Rightarrow>
                   addBlockSize f
                     (case fileSize I u of
                        None \<Rightarrow> 0
                      | Some n \<Rightarrow> if n \<noteq> 0 then n else 0)
               | Some dat \<Rightarrow> addBlockSize f (int (length dat))))))"

text \<open>\<^verbatim>\<open>Array.prototype.map\<close> with that callback: left to right, threading \<open>f\<close>.\<close>

fun link_leaves :: "'w Imports \<Rightarrow> UnixFS \<Rightarrow> Descriptor list \<Rightarrow> PBLink list \<times> UnixFS" where
  "link_leaves I f [] = ([], f)"
| "link_leaves I f (leaf # rest) =
     (let (l, f1) = link_leaf I f leaf;
          (ls, f2) = link_leaves I f1 rest
      in (l # ls, f2))"

text \<open>
  Lines 129 to 177: the parent's metadata, the links of the retained children, and the
  node that is serialized. The result is the node and the metadata object \<open>f\<close>.
\<close>

definition parent_node :: "'w Imports \<Rightarrow> File \<Rightarrow> Descriptor list \<Rightarrow> PBNode \<times> UnixFS" where
  "parent_node I file leaves =
     (let f = new_UnixFS ''file'' None (file_mtime file) (file_mode file);
          (links, f1) = link_leaves I f (filter (keep_leaf I) leaves)
      in (\<lparr>Data = marshal I f1, Links = links\<rparr>, f1))"

text \<open>The general path (lines 128 to 186).\<close>

definition reducer_general ::
  "'w Imports \<Rightarrow> File \<Rightarrow> 'w BlockAPI \<Rightarrow> 'w ImporterOptions \<Rightarrow> Descriptor list \<Rightarrow> 'w
     \<Rightarrow> (error + Descriptor) \<times> 'w" where
  "reducer_general I file block options leaves w =
     (let (node, f) = parent_node I file leaves;
          buffer = encode I (prepare I node)
      in case persist I buffer block (persist_view options) w of
           (Inl e, w1) \<Rightarrow> (Inl e, w1)
         | (Inr c, w1) \<Rightarrow>
             (Inr \<lparr>d_cid = c, d_path = file_path file, d_unixfs = Some f,
                   d_size = int (length buffer) + foldl (\<lambda>acc curr. acc + Tsize curr) 0 (Links node),
                   d_single = False\<rparr>, w1))"

text \<open>The test of line 75 that selects the single-leaf path.\<close>

definition single_leaf_path :: "'w ImporterOptions \<Rightarrow> Descriptor list \<Rightarrow> bool" where
  "single_leaf_path options leaves =
     (length leaves = 1 \<and> d_single (leaves ! 0) \<and> reduceSingleLeafToSelf options)"

text \<open>
  The reducer: the result, the children as the call leaves them (only the single-leaf
  path writes to its child), and the world.
\<close>

definition reducer ::
  "'w Imports \<Rightarrow> File \<Rightarrow> 'w BlockAPI \<Rightarrow> 'w ImporterOptions \<Rightarrow> Descriptor list \<Rightarrow> 'w
     \<Rightarrow> (error + Descriptor) \<times> Descriptor list \<times> 'w" where
  "reducer I file block options leaves w =
     (if single_leaf_path options leaves
      then (let (r, leaf1, w1) = reducer_single I file block options (leaves ! 0) w
            in (r, [leaf1], w1))
      else (let (r, w1) = reducer_general I file block options leaves w
            in (r, leaves, w1)))"

subsection \<open>The reducer when the constructor and the serializer can throw\<close>

text \<open>
  In the definitions above \<^verbatim>\<open>new UnixFS\<close>, \<^verbatim>\<open>marshal\<close>, \<^verbatim>\<open>prepare\<close> and
  \<^verbatim>\<open>encode\<close> always return. In JavaScript each of these calls either returns its
  value or throws, and a throw inside the \<^verbatim>\<open>async\<close> reducer is a rejection of the
  reducer. The record \<open>Throws\<close> says, for each of the four calls and each argument,
  whether the call throws and with which error; where it does not throw, the call returns
  the value that \<open>Imports\<close> (or \<open>new_UnixFS\<close>) gives.
\<close>

record Throws =
  new_UnixFS_throws :: "string \<Rightarrow> bytes option \<Rightarrow> Mtime option \<Rightarrow> nat option \<Rightarrow> error option"
  marshal_throws :: "UnixFS \<Rightarrow> error option"
  prepare_throws :: "PBNode \<Rightarrow> error option"
  encode_throws :: "PBNode \<Rightarrow> error option"

definition call_new_UnixFS ::
  "Throws \<Rightarrow> string \<Rightarrow> bytes option \<Rightarrow> Mtime option \<Rightarrow> nat option \<Rightarrow> error + UnixFS" where
  "call_new_UnixFS T t dat mt md =
     (case new_UnixFS_throws T t dat mt md of
        Some e \<Rightarrow> Inl e
      | None \<Rightarrow> Inr (new_UnixFS t dat mt md))"

definition call_marshal :: "'w Imports \<Rightarrow> Throws \<Rightarrow> UnixFS \<Rightarrow> error + bytes" where
  "call_marshal I T u =
     (case marshal_throws T u of Some e \<Rightarrow> Inl e | None \<Rightarrow> Inr (marshal I u))"

definition call_prepare :: "'w Imports \<Rightarrow> Throws \<Rightarrow> PBNode \<Rightarrow> error + PBNode" where
  "call_prepare I T node =
     (case prepare_throws T node of Some e \<Rightarrow> Inl e | None \<Rightarrow> Inr (prepare I node))"

definition call_encode :: "'w Imports \<Rightarrow> Throws \<Rightarrow> PBNode \<Rightarrow> error + bytes" where
  "call_encode I T node =
     (case encode_throws T node of Some e \<Rightarrow> Inl e | None \<Rightarrow> Inr (encode I node))"

text \<open>
  The single-leaf path (lines 76 to 125) with every call that can fail: \<^verbatim>\<open>block.get\<close>
  (line 81), \<^verbatim>\<open>new UnixFS\<close> (line 83), \<^verbatim>\<open>marshal\<close>, \<^verbatim>\<open>prepare\<close> and
  \<^verbatim>\<open>encode\<close> (line 90, in this order of evaluation) and \<^verbatim>\<open>persist\<close> (line 111).
  The leaf carries the new metadata from line 83 on, and the new address and size only
  after persist has returned.
\<close>

definition reducer_single_throwing ::
  "'w Imports \<Rightarrow> Throws \<Rightarrow> File \<Rightarrow> 'w BlockAPI \<Rightarrow> 'w ImporterOptions \<Rightarrow> Descriptor \<Rightarrow> 'w
     \<Rightarrow> (error + Descriptor) \<times> Descriptor \<times> 'w" where
  "reducer_single_throwing I T file block options leaf w =
     (if cid_code (d_cid leaf) = rawCodec_code \<and>
         (file_mtime file \<noteq> None \<or> file_mode file \<noteq> None)
      then
        (case blk_get block (d_cid leaf) w of
           (Inl e, w1) \<Rightarrow> (Inl e, leaf, w1)
         | (Inr buffer, w1) \<Rightarrow>
             (case call_new_UnixFS T ''file'' (Some buffer) (file_mtime file) (file_mode file) of
                Inl e \<Rightarrow> (Inl e, leaf, w1)
              | Inr u \<Rightarrow>
                  (let leaf1 = leaf\<lparr>d_unixfs := Some u\<rparr>
                   in case call_marshal I T u of
                        Inl e \<Rightarrow> (Inl e, leaf1, w1)
                      | Inr dat \<Rightarrow>
                          (case call_prepare I T \<lparr>Data = dat, Links = []\<rparr> of
                             Inl e \<Rightarrow> (Inl e, leaf1, w1)
                           | Inr prepared \<Rightarrow>
                               (case call_encode I T prepared of
                                  Inl e \<Rightarrow> (Inl e, leaf1, w1)
                                | Inr buffer1 \<Rightarrow>
                                    (case persist I buffer1 block
                                            ((persist_view options)
                                               \<lparr>p_codec := Some mc_DAG_PB,
                                                p_hasher := hasher options,
                                                p_cidVersion := cidVersion options\<rparr>) w1 of
                                       (Inl e, w2) \<Rightarrow> (Inl e, leaf1, w2)
                                     | (Inr c, w2) \<Rightarrow>
                                         (let leaf2 = leaf1\<lparr>d_cid := c,
                                                            d_size := int (length buffer1)\<rparr>
                                          in (Inr \<lparr>d_cid = d_cid leaf2,
                                                   d_path = file_path file,
                                                   d_unixfs = d_unixfs leaf2,
                                                   d_size = d_size leaf2,
                                                   d_single = False\<rparr>, leaf2, w2))))))))
      else
        (Inr \<lparr>d_cid = d_cid leaf, d_path = file_path file, d_unixfs = d_unixfs leaf,
              d_size = d_size leaf, d_single = False\<rparr>, leaf, w))"

text \<open>
  The general path (lines 128 to 186) with every call that can fail: \<^verbatim>\<open>new UnixFS\<close>
  (line 129), \<^verbatim>\<open>marshal\<close> (line 175), \<^verbatim>\<open>prepare\<close> and \<^verbatim>\<open>encode\<close> (line 178)
  and \<^verbatim>\<open>persist\<close> (line 179). A throw before persist leaves the world as it was.
\<close>

definition reducer_general_throwing ::
  "'w Imports \<Rightarrow> Throws \<Rightarrow> File \<Rightarrow> 'w BlockAPI \<Rightarrow> 'w ImporterOptions \<Rightarrow> Descriptor list
     \<Rightarrow> 'w \<Rightarrow> (error + Descriptor) \<times> 'w" where
  "reducer_general_throwing I T file block options leaves w =
     (case call_new_UnixFS T ''file'' None (file_mtime file) (file_mode file) of
        Inl e \<Rightarrow> (Inl e, w)
      | Inr f \<Rightarrow>
          (let (links, f1) = link_leaves I f (filter (keep_leaf I) leaves)
           in case call_marshal I T f1 of
                Inl e \<Rightarrow> (Inl e, w)
              | Inr dat \<Rightarrow>
                  (let node = \<lparr>Data = dat, Links = links\<rparr>
                   in case call_prepare I T node of
                        Inl e \<Rightarrow> (Inl e, w)
                      | Inr prepared \<Rightarrow>
                          (case call_encode I T prepared of
                             Inl e \<Rightarrow> (Inl e, w)
                           | Inr buffer \<Rightarrow>
                               (case persist I buffer block (persist_view options) w of
                                  (Inl e, w1) \<Rightarrow> (Inl e, w1)
                                | (Inr c, w1) \<Rightarrow>
                                    (Inr \<lparr>d_cid = c, d_path = file_path file,
                                          d_unixfs = Some f1,
                                          d_size = int (length buffer) +
                                            foldl (\<lambda>acc curr. acc + Tsize curr) 0 (Links node),
                                          d_single = False\<rparr>, w1))))))"

definition reducer_throwing ::
  "'w Imports \<Rightarrow> Throws \<Rightarrow> File \<Rightarrow> 'w BlockAPI \<Rightarrow> 'w ImporterOptions \<Rightarrow> Descriptor list
     \<Rightarrow> 'w \<Rightarrow> (error + Descriptor) \<times> Descriptor list \<times> 'w" where
  "reducer_throwing I T file block options leaves w =
     (if single_leaf_path options leaves
      then (let (r, leaf1, w1) = reducer_single_throwing I T file block options (leaves ! 0) w
            in (r, [leaf1], w1))
      else (let (r, w1) = reducer_general_throwing I T file block options leaves w
            in (r, leaves, w1)))"

text \<open>The case in which none of the four calls ever throws.\<close>

definition no_throws :: Throws where
  "no_throws =
     \<lparr>new_UnixFS_throws = (\<lambda>t dat mt md. None), marshal_throws = (\<lambda>u. None),
      prepare_throws = (\<lambda>node. None), encode_throws = (\<lambda>node. None)\<rparr>"

subsection \<open>The spec's wording of the reducer's bookkeeping\<close>

text \<open>
  The three ways in which a child contributes real content, as the specification words
  them: a bare (raw-codec) leaf with nonzero size; a framed node (one that carries
  metadata) with no inline data and a nonzero declared logical length; a framed leaf with
  nonempty inline data.
\<close>

definition bare_nonzero :: "Descriptor \<Rightarrow> bool" where
  "bare_nonzero leaf = (cid_code (d_cid leaf) = rawCodec_code \<and> d_size leaf \<noteq> 0)"

definition framed_length_nonzero :: "'w Imports \<Rightarrow> Descriptor \<Rightarrow> bool" where
  "framed_length_nonzero I leaf =
     (case d_unixfs leaf of
        None \<Rightarrow> False
      | Some u \<Rightarrow>
          (case u_data u of
             Some dat \<Rightarrow> False
           | None \<Rightarrow> (case fileSize I u of None \<Rightarrow> False | Some n \<Rightarrow> n \<noteq> 0)))"

definition framed_data_nonempty :: "Descriptor \<Rightarrow> bool" where
  "framed_data_nonempty leaf =
     (case d_unixfs leaf of
        None \<Rightarrow> False
      | Some u \<Rightarrow> (case u_data u of None \<Rightarrow> False | Some dat \<Rightarrow> dat \<noteq> []))"

definition contributes :: "'w Imports \<Rightarrow> Descriptor \<Rightarrow> bool" where
  "contributes I leaf =
     (bare_nonzero leaf \<or> framed_length_nonzero I leaf \<or> framed_data_nonempty leaf)"

text \<open>
  The logical contribution of a child to the parent's block-size list, as the
  specification words it: the physical size for a bare leaf; the declared logical length,
  0 if absent, for a node with no inline data; the length of the inline data for a framed
  leaf with data.
\<close>

definition logical_contribution :: "'w Imports \<Rightarrow> Descriptor \<Rightarrow> int" where
  "logical_contribution I leaf =
     (if cid_code (d_cid leaf) = rawCodec_code then d_size leaf
      else (case d_unixfs leaf of
              None \<Rightarrow> 0
            | Some u \<Rightarrow>
                (case u_data u of
                   None \<Rightarrow> (case fileSize I u of None \<Rightarrow> 0 | Some n \<Rightarrow> n)
                 | Some dat \<Rightarrow> int (length dat))))"

text \<open>The link entry of a child: empty name, the child's physical size, its address.\<close>

definition child_link :: "Descriptor \<Rightarrow> PBLink" where
  "child_link leaf = \<lparr>Name = [], Tsize = d_size leaf, Hash = d_cid leaf\<rparr>"

subsection \<open>An instance of the collaborators, for evaluation at concrete inputs\<close>

text \<open>
  A world that records the blocks written and the progress reports; a \<^verbatim>\<open>persist\<close> that
  addresses a block by its codec, its version and its bytes and writes it unless asked
  to hash only; a serializer that emits one byte per link.
\<close>

record World =
  store :: "(CID \<times> bytes) list"
  reported :: "(nat \<times> string option) list"

definition ex_world :: World where
  "ex_world = \<lparr>store = [], reported = []\<rparr>"

definition ex_persist ::
  "bytes \<Rightarrow> World BlockAPI \<Rightarrow> PersistOptions \<Rightarrow> World \<Rightarrow> (error + CID) \<times> World" where
  "ex_persist buffer block opts w =
     (let c = \<lparr>cid_version = p_cidVersion opts,
               cid_code = (case p_codec opts of None \<Rightarrow> mc_DAG_PB | Some k \<Rightarrow> k),
               cid_multihash = buffer\<rparr>
      in (Inr c, if p_onlyHash opts then w else w\<lparr>store := store w @ [(c, buffer)]\<rparr>))"

definition ex_get :: "CID \<Rightarrow> World \<Rightarrow> (error + bytes) \<times> World" where
  "ex_get c w =
     (case map_of (store w) c of None \<Rightarrow> (Inl StoreError, w) | Some b \<Rightarrow> (Inr b, w))"

definition ex_block :: "World BlockAPI" where
  "ex_block = \<lparr>blk_get = ex_get\<rparr>"

definition ex_encode :: "PBNode \<Rightarrow> bytes" where
  "ex_encode node = 0x0A # Data node @ map (\<lambda>l. 0x12) (Links node)"

definition ex_marshal :: "UnixFS \<Rightarrow> bytes" where
  "ex_marshal u =
     0x08 # map (\<lambda>n. 0x20) (u_blockSizes u) @ (case u_data u of None \<Rightarrow> [] | Some dat \<Rightarrow> dat)"

definition ex_fileSize :: "UnixFS \<Rightarrow> int option" where
  "ex_fileSize u =
     Some (sum_list (u_blockSizes u) +
           (case u_data u of None \<Rightarrow> 0 | Some dat \<Rightarrow> int (length dat)))"

definition ex_imports :: "World Imports" where
  "ex_imports =
     \<lparr>persist = ex_persist, encode = ex_encode, prepare = id,
      marshal = ex_marshal, fileSize = ex_fileSize\<rparr>"

definition ex_progress :: "nat \<Rightarrow> string option \<Rightarrow> World \<Rightarrow> World" where
  "ex_progress n p w = w\<lparr>reported := reported w @ [(n, p)]\<rparr>"

definition ex_options :: "World ImporterOptions" where
  "ex_options =
     \<lparr>rawLeaves = True, reduceSingleLeafToSelf = True, leafType = ''file'',
      cidVersion = 0, hasher = ''sha2-256'', onlyHash = False,
      blockWriteConcurrency = 10, progress = ex_progress\<rparr>"

definition ex_file :: File where
  "ex_file =
     \<lparr>file_content = [[0x61, 0x62, 0x63], [0x64, 0x65, 0x66, 0x67]],
      file_path = Some ''a.txt'', file_mtime = None, file_mode = None\<rparr>"

text \<open>Two leaf descriptors as the Leaf Builder returns them, for the examples.\<close>

definition ex_leaf0 :: Descriptor where
  "ex_leaf0 =
     \<lparr>d_cid = \<lparr>cid_version = 1, cid_code = 0x55, cid_multihash = [0x61, 0x62, 0x63]\<rparr>,
      d_path = None, d_unixfs = None, d_size = 3, d_single = False\<rparr>"

definition ex_leaf1 :: Descriptor where
  "ex_leaf1 =
     \<lparr>d_cid = \<lparr>cid_version = 1, cid_code = 0x55, cid_multihash = [0x64, 0x65, 0x66, 0x67]\<rparr>,
      d_path = None, d_unixfs = None, d_size = 4, d_single = False\<rparr>"

text \<open>
  Two framed leaves as the Leaf Builder returns them for the chunks \<open>abc\<close> and \<open>defg\<close>, an
  intermediate node with the block sizes 3 and 4, a degenerate child with zero length and
  no metadata, and a child that claims metadata with negative length fields.
\<close>

definition ex_framed0 :: Descriptor where
  "ex_framed0 =
     \<lparr>d_cid = \<lparr>cid_version = 0, cid_code = 0x70,
               cid_multihash = [0x0A, 0x08, 0x61, 0x62, 0x63]\<rparr>,
      d_path = None,
      d_unixfs = Some \<lparr>u_type = ''file'', u_data = Some [0x61, 0x62, 0x63],
                       u_mtime = None, u_mode = None, u_blockSizes = []\<rparr>,
      d_size = 5, d_single = False\<rparr>"

definition ex_framed1 :: Descriptor where
  "ex_framed1 =
     \<lparr>d_cid = \<lparr>cid_version = 0, cid_code = 0x70,
               cid_multihash = [0x0A, 0x08, 0x64, 0x65, 0x66, 0x67]\<rparr>,
      d_path = None,
      d_unixfs = Some \<lparr>u_type = ''file'', u_data = Some [0x64, 0x65, 0x66, 0x67],
                       u_mtime = None, u_mode = None, u_blockSizes = []\<rparr>,
      d_size = 6, d_single = False\<rparr>"

definition ex_inner :: Descriptor where
  "ex_inner =
     \<lparr>d_cid = \<lparr>cid_version = 0, cid_code = 0x70,
               cid_multihash = [0x0A, 0x08, 0x20, 0x20, 0x12, 0x12]\<rparr>,
      d_path = Some ''a.txt'',
      d_unixfs = Some \<lparr>u_type = ''file'', u_data = None,
                       u_mtime = None, u_mode = None, u_blockSizes = [3, 4]\<rparr>,
      d_size = 17, d_single = False\<rparr>"

definition ex_empty :: Descriptor where
  "ex_empty =
     \<lparr>d_cid = \<lparr>cid_version = 0, cid_code = 0x70, cid_multihash = []\<rparr>,
      d_path = None, d_unixfs = None, d_size = 0, d_single = False\<rparr>"

definition ex_inconsistent :: Descriptor where
  "ex_inconsistent =
     \<lparr>d_cid = \<lparr>cid_version = 0, cid_code = 0x70, cid_multihash = [0x0A, 0x08]\<rparr>,
      d_path = None,
      d_unixfs = Some \<lparr>u_type = ''file'', u_data = None,
                       u_mtime = None, u_mode = None, u_blockSizes = [- 7]\<rparr>,
      d_size = - 5, d_single = False\<rparr>"

text \<open>
  A serializer that rejects a node with a link of negative size, and a child that claims
  three bytes of inline data under a physical size of one byte.
\<close>

definition ex_throws :: Throws where
  "ex_throws =
     \<lparr>new_UnixFS_throws = (\<lambda>t dat mt md. None), marshal_throws = (\<lambda>u. None),
      prepare_throws = (\<lambda>node. None),
      encode_throws =
        (\<lambda>node. if list_ex (\<lambda>l. Tsize l < 0) (Links node) then Some EncodingError else None)\<rparr>"

definition ex_mismatch :: Descriptor where
  "ex_mismatch =
     \<lparr>d_cid = \<lparr>cid_version = 0, cid_code = 0x70,
               cid_multihash = [0x0A, 0x08, 0x61, 0x62, 0x63]\<rparr>,
      d_path = None,
      d_unixfs = Some \<lparr>u_type = ''file'', u_data = Some [0x61, 0x62, 0x63],
                       u_mtime = None, u_mode = None, u_blockSizes = []\<rparr>,
      d_size = 1, d_single = False\<rparr>"

section \<open>Properties of the Leaf Builder\<close>

text \<open>The task in each of its two modes, as one call of persist.\<close>

lemma task_rawLeaves:
  "rawLeaves options \<Longrightarrow>
   bufferImporter_task I file block options buffer w =
     (case persist I buffer block
             \<lparr>p_codec = Some mc_RAW, p_cidVersion = 1,
              p_hasher = hasher options, p_onlyHash = onlyHash options\<rparr>
             (progress options (length buffer) (file_path file) w) of
        (Inl e, w1) \<Rightarrow> (Inl e, w1)
      | (Inr c, w1) \<Rightarrow>
          (Inr \<lparr>d_cid = c, d_path = None, d_unixfs = None,
                d_size = int (length buffer), d_single = False\<rparr>, w1))"
  by (simp add: bufferImporter_task_def task_opts_def)

lemma task_framed:
  "\<not> rawLeaves options \<Longrightarrow>
   bufferImporter_task I file block options buffer w =
     (case persist I
             (encode I (prepare I
                \<lparr>Data = marshal I (new_UnixFS (leafType options) (Some buffer)
                                   (file_mtime file) (file_mode file)),
                 Links = []\<rparr>))
             block
             \<lparr>p_codec = Some mc_DAG_PB, p_cidVersion = cidVersion options,
              p_hasher = hasher options, p_onlyHash = onlyHash options\<rparr>
             (progress options (length buffer) (file_path file) w) of
        (Inl e, w1) \<Rightarrow> (Inl e, w1)
      | (Inr c, w1) \<Rightarrow>
          (Inr \<lparr>d_cid = c, d_path = None,
                d_unixfs = Some (new_UnixFS (leafType options) (Some buffer)
                                   (file_mtime file) (file_mode file)),
                d_size = int (length (encode I (prepare I
                   \<lparr>Data = marshal I (new_UnixFS (leafType options) (Some buffer)
                                      (file_mtime file) (file_mode file)),
                    Links = []\<rparr>))),
                d_single = False\<rparr>, w1))"
  by (simp add: bufferImporter_task_def task_opts_def Let_def)

lemma task_unmarked:
  "bufferImporter_task I file block options buffer w = (Inr d, w1) \<Longrightarrow> \<not> d_single d"
  by (cases "rawLeaves options")
    (auto simp add: task_rawLeaves task_framed split: prod.splits sum.splits)

text \<open>
  Claim C7. With the raw-leaves option the task hands the chunk itself to persist with
  the raw codec and the address version 1, whatever address version the caller
  configured; without it the task hands the framed bytes to persist with the framed-node
  codec and the caller's configured address version. In both cases the outcome of the
  task is the outcome of that one call.
\<close>

theorem leaf_persist_config:
  "bufferImporter_task I file block options buffer w =
     (if rawLeaves options
      then
        (case persist I buffer block
                \<lparr>p_codec = Some mc_RAW, p_cidVersion = 1,
                 p_hasher = hasher options, p_onlyHash = onlyHash options\<rparr>
                (progress options (length buffer) (file_path file) w) of
           (Inl e, w1) \<Rightarrow> (Inl e, w1)
         | (Inr c, w1) \<Rightarrow>
             (Inr \<lparr>d_cid = c, d_path = None, d_unixfs = None,
                   d_size = int (length buffer), d_single = False\<rparr>, w1))
      else
        (case persist I
                (encode I (prepare I
                   \<lparr>Data = marshal I (new_UnixFS (leafType options) (Some buffer)
                                      (file_mtime file) (file_mode file)),
                    Links = []\<rparr>))
                block
                \<lparr>p_codec = Some mc_DAG_PB, p_cidVersion = cidVersion options,
                 p_hasher = hasher options, p_onlyHash = onlyHash options\<rparr>
                (progress options (length buffer) (file_path file) w) of
           (Inl e, w1) \<Rightarrow> (Inl e, w1)
         | (Inr c, w1) \<Rightarrow>
             (Inr \<lparr>d_cid = c, d_path = None,
                   d_unixfs = Some (new_UnixFS (leafType options) (Some buffer)
                                      (file_mtime file) (file_mode file)),
                   d_size = int (length (encode I (prepare I
                      \<lparr>Data = marshal I (new_UnixFS (leafType options) (Some buffer)
                                         (file_mtime file) (file_mode file)),
                       Links = []\<rparr>))),
                   d_single = False\<rparr>, w1)))"
  by (simp add: task_rawLeaves task_framed)

text \<open>
  At a concrete input: the caller configures address version 0, and the bare leaf is
  written under version 1 and codec \<open>0x55\<close>; the same chunk as a framed leaf is written
  under version 0 and codec \<open>0x70\<close>.
\<close>

theorem leaf_persist_config_witness:
  "bufferImporter_task ex_imports ex_file ex_block ex_options [0x61, 0x62, 0x63] ex_world =
     (Inr \<lparr>d_cid = \<lparr>cid_version = 1, cid_code = 0x55, cid_multihash = [0x61, 0x62, 0x63]\<rparr>,
           d_path = None, d_unixfs = None, d_size = 3, d_single = False\<rparr>,
      \<lparr>store = [(\<lparr>cid_version = 1, cid_code = 0x55, cid_multihash = [0x61, 0x62, 0x63]\<rparr>,
                 [0x61, 0x62, 0x63])],
       reported = [(3, Some ''a.txt'')]\<rparr>)
   \<and> snd (bufferImporter_task ex_imports ex_file ex_block
            (ex_options\<lparr>rawLeaves := False\<rparr>) [0x61, 0x62, 0x63] ex_world) =
      \<lparr>store = [(\<lparr>cid_version = 0, cid_code = 0x70,
                  cid_multihash = [0x0A, 0x08, 0x61, 0x62, 0x63]\<rparr>,
                 [0x0A, 0x08, 0x61, 0x62, 0x63])],
       reported = [(3, Some ''a.txt'')]\<rparr>"
  by (simp add: leaf_persist_config ex_imports_def ex_file_def ex_options_def ex_world_def
      ex_persist_def ex_progress_def ex_encode_def ex_marshal_def new_UnixFS_def
      mc_RAW_def mc_DAG_PB_def Let_def)

text \<open>
  Claim C8, as the code has it. When a task returns a descriptor, its metadata is present
  exactly when the leaf is framed (raw leaves disabled); the metadata of a framed leaf
  has the declared type that the option \<^verbatim>\<open>leafType\<close> names (line 38; the type is
  \<open>''file''\<close> only when the option says so), the chunk as content, and the file's mtime
  and mode; and the descriptor's size is the length of the very bytes that persist
  accepted, whose address is the descriptor's.
\<close>

theorem leaf_descriptor:
  assumes "bufferImporter_task I file block options buffer w = (Inr d, w1)"
  shows
    "(let u = \<lparr>u_type = leafType options, u_data = Some buffer,
               u_mtime = file_mtime file, u_mode = file_mode file, u_blockSizes = []\<rparr>;
          persisted = (if rawLeaves options then buffer
                       else encode I (prepare I \<lparr>Data = marshal I u, Links = []\<rparr>))
      in d_unixfs d = (if rawLeaves options then None else Some u) \<and>
         (d_unixfs d \<noteq> None) = (\<not> rawLeaves options) \<and>
         d_size d = int (length persisted) \<and>
         (\<exists>opts. persist I persisted block opts
                    (progress options (length buffer) (file_path file) w) =
                  (Inr (d_cid d), w1)))"
proof (cases "rawLeaves options")
  case True
  with assms show ?thesis
    by (auto simp add: task_rawLeaves split: prod.splits sum.splits)
next
  case False
  with assms show ?thesis
    by (auto simp add: task_framed new_UnixFS_def split: prod.splits sum.splits)
qed

theorem leaf_descriptor_witness:
  "(let d = \<lparr>d_cid = \<lparr>cid_version = 0, cid_code = 0x70,
                        cid_multihash = [0x0A, 0x08, 0x61, 0x62, 0x63]\<rparr>,
              d_path = None,
              d_unixfs = Some \<lparr>u_type = ''file'', u_data = Some [0x61, 0x62, 0x63],
                               u_mtime = Some (1600000000, 0), u_mode = Some 420,
                               u_blockSizes = []\<rparr>,
              d_size = 5, d_single = False\<rparr>
    in fst (bufferImporter_task ex_imports
              (ex_file\<lparr>file_mtime := Some (1600000000, 0), file_mode := Some 420\<rparr>)
              ex_block (ex_options\<lparr>rawLeaves := False\<rparr>) [0x61, 0x62, 0x63] ex_world) = Inr d
       \<and> d_unixfs d \<noteq> None
       \<and> d_size d = int (length (ex_encode \<lparr>Data = ex_marshal (the (d_unixfs d)), Links = []\<rparr>)))"
proof -
  let ?file = "ex_file\<lparr>file_mtime := Some (1600000000, 0), file_mode := Some 420\<rparr>"
  let ?options = "ex_options\<lparr>rawLeaves := False\<rparr>"
  let ?d = "\<lparr>d_cid = \<lparr>cid_version = 0, cid_code = 0x70,
                       cid_multihash = [0x0A, 0x08, 0x61, 0x62, 0x63]\<rparr>,
             d_path = None,
             d_unixfs = Some \<lparr>u_type = ''file'', u_data = Some [0x61, 0x62, 0x63],
                              u_mtime = Some (1600000000, 0), u_mode = Some 420,
                              u_blockSizes = []\<rparr>,
             d_size = 5, d_single = False\<rparr>"
  let ?w1 = "\<lparr>store = [(\<lparr>cid_version = 0, cid_code = 0x70,
                          cid_multihash = [0x0A, 0x08, 0x61, 0x62, 0x63]\<rparr>,
                         [0x0A, 0x08, 0x61, 0x62, 0x63])],
              reported = [(3, Some ''a.txt'')]\<rparr>"
  have run: "bufferImporter_task ex_imports ?file ex_block ?options [0x61, 0x62, 0x63] ex_world
               = (Inr ?d, ?w1)"
    by (simp add: bufferImporter_task_def task_opts_def ex_imports_def ex_file_def
        ex_options_def ex_world_def ex_persist_def ex_progress_def ex_encode_def
        ex_marshal_def new_UnixFS_def mc_DAG_PB_def Let_def)
  from leaf_descriptor [OF run] show ?thesis
    by (simp add: run Let_def ex_encode_def ex_marshal_def)
qed

text \<open>
  The claim as stated fails where the caller configures the leaf type \<open>''raw''\<close>: the
  framed leaf then declares the type \<open>''raw''\<close>, not \<open>''file''\<close>.
\<close>

theorem leaf_type_counterexample:
  "fst (bufferImporter_task ex_imports ex_file ex_block
          (ex_options\<lparr>rawLeaves := False, leafType := ''raw''\<rparr>) [0x61, 0x62, 0x63] ex_world) =
     Inr \<lparr>d_cid = \<lparr>cid_version = 0, cid_code = 0x70,
                    cid_multihash = [0x0A, 0x08, 0x61, 0x62, 0x63]\<rparr>,
          d_path = None,
          d_unixfs = Some \<lparr>u_type = ''raw'', u_data = Some [0x61, 0x62, 0x63],
                           u_mtime = None, u_mode = None, u_blockSizes = []\<rparr>,
          d_size = 5, d_single = False\<rparr>
   \<and> u_type \<lparr>u_type = ''raw'', u_data = Some [0x61, 0x62, 0x63],
              u_mtime = None, u_mode = None, u_blockSizes = []\<rparr> \<noteq> ''file''"
  by (simp add: bufferImporter_task_def task_opts_def ex_imports_def ex_file_def
      ex_options_def ex_world_def ex_persist_def ex_progress_def ex_encode_def
      ex_marshal_def new_UnixFS_def mc_DAG_PB_def Let_def)

section \<open>Properties of the batcher\<close>

lemma batch_loop_running:
  "1 \<le> count s \<Longrightarrow> batch_loop s es = (es, s\<lparr>count := count s + int (length es)\<rparr>)"
proof (induction es arbitrary: s)
  case Nil
  then show ?case by simp
next
  case (Cons e es)
  have step: "batch_entry s e = ([e], s\<lparr>count := count s + 1\<rparr>)"
    using Cons.prems by (simp add: batch_entry_def Let_def)
  have "1 \<le> count (s\<lparr>count := count s + 1\<rparr>)"
    using Cons.prems by simp
  from Cons.IH [OF this] show ?case
    by (simp add: step add.assoc)
qed

lemma batch_entry_first:
  "batch_entry batch_init e = ([], \<lparr>count = 0, previous = Some e\<rparr>)"
  by (simp add: batch_entry_def batch_init_def Let_def)

lemma batch_entry_second:
  "batch_entry \<lparr>count = 0, previous = Some e1\<rparr> e2 = ([e1, e2], \<lparr>count = 1, previous = None\<rparr>)"
  by (simp add: batch_entry_def Let_def)

lemma batch_loop_init:
  "batch_loop batch_init es =
     (case es of
        [] \<Rightarrow> ([], batch_init)
      | [e] \<Rightarrow> ([], \<lparr>count = 0, previous = Some e\<rparr>)
      | e1 # e2 # rest \<Rightarrow> (es, \<lparr>count = 1 + int (length rest), previous = None\<rparr>))"
proof (cases es)
  case Nil
  then show ?thesis by simp
next
  case (Cons e1 es1)
  show ?thesis
  proof (cases es1)
    case Nil
    with Cons show ?thesis by (simp add: batch_entry_first)
  next
    case (Cons e2 rest)
    have "batch_loop \<lparr>count = 1, previous = None\<rparr> rest =
            (rest, \<lparr>count = 1 + int (length rest), previous = None\<rparr>)"
      using batch_loop_running [of "\<lparr>count = 1, previous = None\<rparr>" rest] by simp
    with Cons \<open>es = e1 # es1\<close> show ?thesis
      by (simp add: batch_entry_first batch_entry_second)
  qed
qed

lemma buildFileBatch_done:
  "buildFileBatch entries None =
     ((if length entries = 1 then map (\<lambda>d. d\<lparr>d_single := True\<rparr>) entries else entries), None)"
proof -
  have "previous batch_init = None"
    by (simp add: batch_init_def)
  then show ?thesis
    by (simp add: buildFileBatch_def batch_loop_init batch_end_def split: list.splits)
qed

lemma buildFileBatch_thrown:
  "buildFileBatch entries (Some e) = ((if length entries \<le> 1 then [] else entries), Some e)"
  by (simp add: buildFileBatch_def batch_loop_init split: list.splits)

text \<open>
  Claim C6. After the loop has consumed any number of entries it has yielded nothing if
  there were at most one (the first entry is held back) and all of them, in their order,
  if there were two or more; at the end of the sequence the generator has yielded the
  entries in their order, the only entry marked single when there is exactly one and all
  entries untouched otherwise. Hence, for entries that arrive unmarked (as the tasks of
  the Leaf Builder return them), a yielded descriptor is marked single if and only if the
  sequence had exactly one result.
\<close>

theorem batch_order_single:
  "fst (batch_loop batch_init consumed) = (if length consumed \<le> 1 then [] else consumed)
   \<and> buildFileBatch entries None =
       ((if length entries = 1 then map (\<lambda>d. d\<lparr>d_single := True\<rparr>) entries else entries), None)
   \<and> map (\<lambda>d. d\<lparr>d_single := False\<rparr>) (fst (buildFileBatch entries None)) =
       map (\<lambda>d. d\<lparr>d_single := False\<rparr>) entries
   \<and> ((\<forall>e \<in> set entries. \<not> d_single e) \<longrightarrow>
       (\<forall>d \<in> set (fst (buildFileBatch entries None)). d_single d = (length entries = 1)))"
proof -
  have a: "fst (batch_loop batch_init consumed) = (if length consumed \<le> 1 then [] else consumed)"
    by (simp add: batch_loop_init split: list.splits)
  have b: "map (\<lambda>d. d\<lparr>d_single := False\<rparr>) (fst (buildFileBatch entries None)) =
             map (\<lambda>d. d\<lparr>d_single := False\<rparr>) entries"
    by (simp add: buildFileBatch_done)
  have c: "(\<forall>e \<in> set entries. \<not> d_single e) \<longrightarrow>
       (\<forall>d \<in> set (fst (buildFileBatch entries None)). d_single d = (length entries = 1))"
    by (auto simp add: buildFileBatch_done)
  from a b c show ?thesis
    by (simp only: buildFileBatch_done simp_thms)
qed

theorem batch_order_single_witness:
  "fst (batch_loop batch_init [ex_leaf0]) = []
   \<and> buildFileBatch [ex_leaf0] None = ([ex_leaf0\<lparr>d_single := True\<rparr>], None)
   \<and> fst (batch_loop batch_init [ex_leaf0, ex_leaf1]) = [ex_leaf0, ex_leaf1]
   \<and> buildFileBatch [ex_leaf0, ex_leaf1] None = ([ex_leaf0, ex_leaf1], None)
   \<and> d_single (ex_leaf0\<lparr>d_single := True\<rparr>)
   \<and> \<not> d_single ex_leaf0 \<and> \<not> d_single ex_leaf1"
  using batch_order_single [of "[ex_leaf0]" "[ex_leaf0]"]
    batch_order_single [of "[ex_leaf0, ex_leaf1]" "[ex_leaf0, ex_leaf1]"]
  by (simp add: ex_leaf0_def ex_leaf1_def)

section \<open>Properties of the reducer\<close>

subsection \<open>The links and block sizes of the parent node\<close>

lemma foldl_Tsize:
  "foldl (\<lambda>acc curr. acc + Tsize curr) a ls = a + sum_list (map Tsize ls)"
  by (induction ls arbitrary: a) simp_all

lemma keep_leaf_contributes:
  "keep_leaf I leaf = contributes I leaf"
  by (cases "d_unixfs leaf")
    (auto simp add: keep_leaf_def contributes_def bare_nonzero_def
      framed_length_nonzero_def framed_data_nonempty_def split: option.splits)

lemma link_leaf_eq:
  "link_leaf I f leaf = (child_link leaf, addBlockSize f (logical_contribution I leaf))"
  by (simp add: link_leaf_def child_link_def logical_contribution_def split: option.splits)

lemma link_leaves_eq:
  "link_leaves I f ls =
     (map child_link ls, f\<lparr>u_blockSizes := u_blockSizes f @ map (logical_contribution I) ls\<rparr>)"
proof (induction ls arbitrary: f)
  case Nil
  show ?case by simp
next
  case (Cons leaf ls)
  show ?case
    by (simp add: link_leaf_eq Cons.IH addBlockSize_def)
qed

lemma parent_node_eq:
  "parent_node I file leaves =
     (\<lparr>Data = marshal I
               \<lparr>u_type = ''file'', u_data = None, u_mtime = file_mtime file,
                u_mode = file_mode file,
                u_blockSizes = map (logical_contribution I) (filter (keep_leaf I) leaves)\<rparr>,
       Links = map child_link (filter (keep_leaf I) leaves)\<rparr>,
      \<lparr>u_type = ''file'', u_data = None, u_mtime = file_mtime file,
       u_mode = file_mode file,
       u_blockSizes = map (logical_contribution I) (filter (keep_leaf I) leaves)\<rparr>)"
  by (simp add: parent_node_def link_leaves_eq new_UnixFS_def)

lemma parent_node_Links:
  "Links (fst (parent_node I file leaves)) = map child_link (filter (keep_leaf I) leaves)"
  by (simp add: parent_node_eq)

lemma parent_node_blockSizes:
  "u_blockSizes (snd (parent_node I file leaves)) =
     map (logical_contribution I) (filter (keep_leaf I) leaves)"
  by (simp add: parent_node_eq)

lemma Tsize_child_link:
  "map Tsize (map child_link ls) = map d_size ls"
  by (simp add: child_link_def)

text \<open>The general path as one equation in the node that \<open>parent_node\<close> builds.\<close>

lemma reducer_general_eq:
  "reducer_general I file block options leaves w =
     (case persist I (encode I (prepare I (fst (parent_node I file leaves)))) block
             (persist_view options) w of
        (Inl e, w1) \<Rightarrow> (Inl e, w1)
      | (Inr c, w1) \<Rightarrow>
          (Inr \<lparr>d_cid = c, d_path = file_path file,
                d_unixfs = Some (snd (parent_node I file leaves)),
                d_size = int (length (encode I (prepare I (fst (parent_node I file leaves))))) +
                         sum_list (map d_size (filter (keep_leaf I) leaves)),
                d_single = False\<rparr>, w1))"
proof -
  obtain node f where pn: "parent_node I file leaves = (node, f)"
    by (cases "parent_node I file leaves")
  have "Links node = map child_link (filter (keep_leaf I) leaves)"
    using parent_node_Links [of I "file" leaves] by (simp add: pn)
  then have "foldl (\<lambda>acc curr. acc + Tsize curr) 0 (Links node) =
               sum_list (map d_size (filter (keep_leaf I) leaves))"
    by (simp only: foldl_Tsize Tsize_child_link)
  then show ?thesis
    by (simp add: reducer_general_def pn split: prod.splits sum.splits)
qed

lemma reducer_not_single:
  "\<not> single_leaf_path options leaves \<Longrightarrow>
   reducer I file block options leaves w =
     (fst (reducer_general I file block options leaves w), leaves,
      snd (reducer_general I file block options leaves w))"
  by (simp add: reducer_def split: prod.splits)

lemma reducer_single_leaf:
  "d_single leaf \<Longrightarrow> reduceSingleLeafToSelf options \<Longrightarrow>
   reducer I file block options [leaf] w =
     (fst (reducer_single I file block options leaf w),
      [fst (snd (reducer_single I file block options leaf w))],
      snd (snd (reducer_single I file block options leaf w)))"
  by (simp add: reducer_def single_leaf_path_def split: prod.splits)

subsection \<open>The general path\<close>

text \<open>
  Claim C1. On the general path (the test of line 75 fails), a returned descriptor's size
  is the length of the serialized parent node, which is the block handed to persist and
  addressed by the descriptor, plus the sum of the sizes of exactly the children that the
  filter retains.
\<close>

theorem reducer_size:
  assumes general: "\<not> single_leaf_path options leaves"
    and returned: "reducer I file block options leaves w = (Inr d, leaves', w')"
  shows "d_size d =
           int (length (encode I (prepare I (fst (parent_node I file leaves))))) +
           sum_list (map d_size (filter (keep_leaf I) leaves))
         \<and> persist I (encode I (prepare I (fst (parent_node I file leaves)))) block
               (persist_view options) w = (Inr (d_cid d), w')"
proof -
  let ?buffer = "encode I (prepare I (fst (parent_node I file leaves)))"
  obtain r w1 where p: "persist I ?buffer block (persist_view options) w = (r, w1)"
    by (cases "persist I ?buffer block (persist_view options) w")
  from returned
  have "fst (reducer_general I file block options leaves w) = Inr d
        \<and> snd (reducer_general I file block options leaves w) = w'"
    using reducer_not_single [OF general, of I "file" block w] by auto
  then have g: "reducer_general I file block options leaves w = (Inr d, w')"
    by (simp add: prod_eq_iff)
  show ?thesis
  proof (cases r)
    case (Inl e)
    with p g show ?thesis
      by (simp add: reducer_general_eq)
  next
    case (Inr c)
    with p g show ?thesis
      by (auto simp add: reducer_general_eq)
  qed
qed

theorem reducer_size_witness:
  "\<not> single_leaf_path ex_options [ex_framed0, ex_empty, ex_leaf1, ex_inner]
   \<and> fst (reducer ex_imports ex_file ex_block ex_options
             [ex_framed0, ex_empty, ex_leaf1, ex_inner] ex_world) =
       Inr \<lparr>d_cid = \<lparr>cid_version = 0, cid_code = 0x70,
                      cid_multihash = [0x0A, 0x08, 0x20, 0x20, 0x20, 0x12, 0x12, 0x12]\<rparr>,
            d_path = Some ''a.txt'',
            d_unixfs = Some \<lparr>u_type = ''file'', u_data = None, u_mtime = None,
                             u_mode = None, u_blockSizes = [3, 4, 7]\<rparr>,
            d_size = 34, d_single = False\<rparr>
   \<and> (34 :: int) =
       int (length (encode ex_imports (prepare ex_imports
              (fst (parent_node ex_imports ex_file [ex_framed0, ex_empty, ex_leaf1, ex_inner]))))) +
       sum_list (map d_size (filter (keep_leaf ex_imports)
                               [ex_framed0, ex_empty, ex_leaf1, ex_inner]))
   \<and> filter (keep_leaf ex_imports) [ex_framed0, ex_empty, ex_leaf1, ex_inner] =
       [ex_framed0, ex_leaf1, ex_inner]"
proof -
  let ?leaves = "[ex_framed0, ex_empty, ex_leaf1, ex_inner]"
  let ?d = "\<lparr>d_cid = \<lparr>cid_version = 0, cid_code = 0x70,
                       cid_multihash = [0x0A, 0x08, 0x20, 0x20, 0x20, 0x12, 0x12, 0x12]\<rparr>,
             d_path = Some ''a.txt'',
             d_unixfs = Some \<lparr>u_type = ''file'', u_data = None, u_mtime = None,
                              u_mode = None, u_blockSizes = [3, 4, 7]\<rparr>,
             d_size = 34, d_single = False\<rparr>"
  let ?w = "\<lparr>store = [(\<lparr>cid_version = 0, cid_code = 0x70,
                         cid_multihash = [0x0A, 0x08, 0x20, 0x20, 0x20, 0x12, 0x12, 0x12]\<rparr>,
                        [0x0A, 0x08, 0x20, 0x20, 0x20, 0x12, 0x12, 0x12])],
             reported = []\<rparr>"
  have general: "\<not> single_leaf_path ex_options ?leaves"
    by (simp add: single_leaf_path_def)
  have kept: "filter (keep_leaf ex_imports) ?leaves = [ex_framed0, ex_leaf1, ex_inner]"
    by (simp add: keep_leaf_def ex_framed0_def ex_empty_def ex_leaf1_def ex_inner_def
        ex_imports_def ex_fileSize_def rawCodec_code_def)
  have run: "reducer ex_imports ex_file ex_block ex_options ?leaves ex_world = (Inr ?d, ?leaves, ?w)"
    by (simp add: reducer_def single_leaf_path_def reducer_general_def parent_node_def
        keep_leaf_def link_leaf_def addBlockSize_def new_UnixFS_def persist_view_def
        ex_framed0_def ex_empty_def ex_leaf1_def ex_inner_def ex_imports_def ex_fileSize_def
        ex_persist_def ex_encode_def ex_marshal_def ex_file_def ex_options_def ex_world_def
        rawCodec_code_def mc_DAG_PB_def Let_def)
  have second: "fst (reducer ex_imports ex_file ex_block ex_options ?leaves ex_world) = Inr ?d"
    by (simp only: run fst_conv)
  from reducer_size [OF general run]
  have third: "(34 :: int) =
       int (length (encode ex_imports (prepare ex_imports
              (fst (parent_node ex_imports ex_file ?leaves))))) +
       sum_list (map d_size (filter (keep_leaf ex_imports) ?leaves))"
    by (elim conjE) (simp only: Descriptor.select_convs)
  show ?thesis
    by (intro conjI) (fact general, fact second, fact third, fact kept)
qed

text \<open>
  Claim C4. The links of the parent node are the links of the children that contribute
  real content in one of the three ways, in their order, and so are the entries of the
  block-size list; a child that contributes in none of the three ways leaves no trace:
  the general path returns the same result and leaves the same world with it among the
  children as without it.
\<close>

theorem retained_children:
  "Links (fst (parent_node I file leaves)) = map child_link (filter (contributes I) leaves)
   \<and> length (u_blockSizes (snd (parent_node I file leaves))) =
       length (filter (contributes I) leaves)
   \<and> (\<not> contributes I c \<longrightarrow>
        parent_node I file (xs @ c # ys) = parent_node I file (xs @ ys) \<and>
        reducer_general I file block options (xs @ c # ys) w =
          reducer_general I file block options (xs @ ys) w)"
proof -
  have same: "keep_leaf I = contributes I"
    by (rule ext) (rule keep_leaf_contributes)
  have links: "Links (fst (parent_node I file leaves)) =
                 map child_link (filter (contributes I) leaves)"
    by (simp only: parent_node_Links same)
  have sizes: "length (u_blockSizes (snd (parent_node I file leaves))) =
                 length (filter (contributes I) leaves)"
    by (simp only: parent_node_blockSizes same length_map)
  have dropped: "parent_node I file (xs @ c # ys) = parent_node I file (xs @ ys)
                 \<and> reducer_general I file block options (xs @ c # ys) w =
                     reducer_general I file block options (xs @ ys) w"
    if "\<not> contributes I c"
  proof -
    from that have "filter (keep_leaf I) (xs @ c # ys) = filter (keep_leaf I) (xs @ ys)"
      by (simp add: same)
    then have "parent_node I file (xs @ c # ys) = parent_node I file (xs @ ys)"
      by (simp only: parent_node_eq)
    moreover from this \<open>filter (keep_leaf I) (xs @ c # ys) = filter (keep_leaf I) (xs @ ys)\<close>
    have "reducer_general I file block options (xs @ c # ys) w =
            reducer_general I file block options (xs @ ys) w"
      by (simp only: reducer_general_eq)
    ultimately show ?thesis ..
  qed
  from links sizes dropped show ?thesis
    by blast
qed

theorem retained_children_witness:
  "contributes ex_imports ex_framed0 \<and> \<not> contributes ex_imports ex_empty
   \<and> contributes ex_imports ex_leaf1 \<and> contributes ex_imports ex_inner
   \<and> Links (fst (parent_node ex_imports ex_file [ex_framed0, ex_empty, ex_leaf1, ex_inner])) =
       [child_link ex_framed0, child_link ex_leaf1, child_link ex_inner]
   \<and> reducer_general ex_imports ex_file ex_block ex_options
         ([ex_framed0] @ ex_empty # [ex_leaf1, ex_inner]) ex_world =
       reducer_general ex_imports ex_file ex_block ex_options
         ([ex_framed0] @ [ex_leaf1, ex_inner]) ex_world"
proof -
  have a: "contributes ex_imports ex_framed0"
    by (simp add: contributes_def framed_data_nonempty_def ex_framed0_def)
  have b: "\<not> contributes ex_imports ex_empty"
    by (simp add: contributes_def bare_nonzero_def framed_length_nonzero_def
        framed_data_nonempty_def ex_empty_def)
  have c: "contributes ex_imports ex_leaf1"
    by (simp add: contributes_def bare_nonzero_def ex_leaf1_def rawCodec_code_def)
  have d: "contributes ex_imports ex_inner"
    by (simp add: contributes_def framed_length_nonzero_def ex_inner_def ex_imports_def
        ex_fileSize_def)
  note inst = retained_children [of ex_imports ex_file "[ex_framed0, ex_empty, ex_leaf1, ex_inner]"
      ex_empty "[ex_framed0]" "[ex_leaf1, ex_inner]" ex_block ex_options ex_world]
  from inst
  have "Links (fst (parent_node ex_imports ex_file [ex_framed0, ex_empty, ex_leaf1, ex_inner])) =
          map child_link (filter (contributes ex_imports)
                            [ex_framed0, ex_empty, ex_leaf1, ex_inner])"
    by (rule conjunct1)
  with a b c d
  have e: "Links (fst (parent_node ex_imports ex_file [ex_framed0, ex_empty, ex_leaf1, ex_inner])) =
             [child_link ex_framed0, child_link ex_leaf1, child_link ex_inner]"
    by simp
  from inst b
  have f: "reducer_general ex_imports ex_file ex_block ex_options
             ([ex_framed0] @ ex_empty # [ex_leaf1, ex_inner]) ex_world =
           reducer_general ex_imports ex_file ex_block ex_options
             ([ex_framed0] @ [ex_leaf1, ex_inner]) ex_world"
    by blast
  show ?thesis
    by (intro conjI) (fact a, fact b, fact c, fact d, fact e, fact f)
qed

text \<open>
  Claim C5. On the general path the metadata of the returned descriptor lists, for the
  retained children in their order, each child's logical contribution, and the node that
  is serialized links the same children in the same order, each link with an empty name,
  the child's address and the child's full physical size.
\<close>

theorem block_sizes_and_links:
  assumes general: "\<not> single_leaf_path options leaves"
    and returned: "reducer I file block options leaves w = (Inr d, leaves', w')"
  shows "d_unixfs d = Some (snd (parent_node I file leaves))
         \<and> u_blockSizes (snd (parent_node I file leaves)) =
             map (logical_contribution I) (filter (keep_leaf I) leaves)
         \<and> map Tsize (Links (fst (parent_node I file leaves))) =
             map d_size (filter (keep_leaf I) leaves)
         \<and> map Hash (Links (fst (parent_node I file leaves))) =
             map d_cid (filter (keep_leaf I) leaves)
         \<and> map Name (Links (fst (parent_node I file leaves))) =
             map (\<lambda>c. []) (filter (keep_leaf I) leaves)
         \<and> Data (fst (parent_node I file leaves)) = marshal I (snd (parent_node I file leaves))"
proof -
  let ?buffer = "encode I (prepare I (fst (parent_node I file leaves)))"
  from returned
  have "fst (reducer_general I file block options leaves w) = Inr d"
    using reducer_not_single [OF general, of I "file" block w] by auto
  then have meta: "d_unixfs d = Some (snd (parent_node I file leaves))"
    by (cases "persist I ?buffer block (persist_view options) w")
      (auto simp add: reducer_general_eq split: sum.splits)
  have links: "map Tsize (Links (fst (parent_node I file leaves))) =
                 map d_size (filter (keep_leaf I) leaves)"
    "map Hash (Links (fst (parent_node I file leaves))) =
                 map d_cid (filter (keep_leaf I) leaves)"
    "map Name (Links (fst (parent_node I file leaves))) =
                 map (\<lambda>c. []) (filter (keep_leaf I) leaves)"
    by (simp_all add: parent_node_Links child_link_def)
  have data: "Data (fst (parent_node I file leaves)) = marshal I (snd (parent_node I file leaves))"
    by (simp add: parent_node_eq)
  from meta parent_node_blockSizes [of I "file" leaves] links data show ?thesis
    by (intro conjI)
qed

text \<open>
  The file of two chunks \<open>abc\<close> and \<open>defg\<close> with framed leaves: the parent lists the block
  sizes 3 and 4, and links the leaves in their order with their physical sizes 5 and 6.
\<close>

theorem block_sizes_and_links_witness:
  "\<not> single_leaf_path (ex_options\<lparr>rawLeaves := False\<rparr>) [ex_framed0, ex_framed1]
   \<and> fst (reducer ex_imports ex_file ex_block (ex_options\<lparr>rawLeaves := False\<rparr>)
             [ex_framed0, ex_framed1] ex_world) = Inr ex_inner
   \<and> u_blockSizes (snd (parent_node ex_imports ex_file [ex_framed0, ex_framed1])) = [3, 4]
   \<and> map Tsize (Links (fst (parent_node ex_imports ex_file [ex_framed0, ex_framed1]))) = [5, 6]
   \<and> map Hash (Links (fst (parent_node ex_imports ex_file [ex_framed0, ex_framed1]))) =
       [d_cid ex_framed0, d_cid ex_framed1]"
proof -
  let ?leaves = "[ex_framed0, ex_framed1]"
  let ?options = "ex_options\<lparr>rawLeaves := False\<rparr>"
  let ?w = "\<lparr>store = [(\<lparr>cid_version = 0, cid_code = 0x70,
                         cid_multihash = [0x0A, 0x08, 0x20, 0x20, 0x12, 0x12]\<rparr>,
                        [0x0A, 0x08, 0x20, 0x20, 0x12, 0x12])],
             reported = []\<rparr>"
  have general: "\<not> single_leaf_path ?options ?leaves"
    by (simp add: single_leaf_path_def)
  have kept: "filter (keep_leaf ex_imports) ?leaves = ?leaves"
    by (simp add: keep_leaf_def ex_framed0_def ex_framed1_def)
  have run: "reducer ex_imports ex_file ex_block ?options ?leaves ex_world =
               (Inr ex_inner, ?leaves, ?w)"
    by (simp add: reducer_def single_leaf_path_def reducer_general_def parent_node_def
        keep_leaf_def link_leaf_def addBlockSize_def new_UnixFS_def persist_view_def
        ex_framed0_def ex_framed1_def ex_inner_def ex_imports_def ex_fileSize_def
        ex_persist_def ex_encode_def ex_marshal_def ex_file_def ex_options_def ex_world_def
        rawCodec_code_def mc_DAG_PB_def Let_def)
  have second: "fst (reducer ex_imports ex_file ex_block ?options ?leaves ex_world) = Inr ex_inner"
    by (simp only: run fst_conv)
  note inst = block_sizes_and_links [OF general run]
  from inst
  have "u_blockSizes (snd (parent_node ex_imports ex_file ?leaves)) =
          map (logical_contribution ex_imports) ?leaves"
    by (elim conjE) (simp only: kept)
  then have sizes: "u_blockSizes (snd (parent_node ex_imports ex_file ?leaves)) = [3, 4]"
    by (simp add: logical_contribution_def ex_framed0_def ex_framed1_def rawCodec_code_def)
  from inst
  have "map Tsize (Links (fst (parent_node ex_imports ex_file ?leaves))) = map d_size ?leaves"
    by (elim conjE) (simp only: kept)
  then have tsizes: "map Tsize (Links (fst (parent_node ex_imports ex_file ?leaves))) = [5, 6]"
    by (simp add: ex_framed0_def ex_framed1_def)
  from inst
  have "map Hash (Links (fst (parent_node ex_imports ex_file ?leaves))) = map d_cid ?leaves"
    by (elim conjE) (simp only: kept)
  then have hashes: "map Hash (Links (fst (parent_node ex_imports ex_file ?leaves))) =
                  [d_cid ex_framed0, d_cid ex_framed1]"
    by simp
  show ?thesis
    by (intro conjI) (fact general, fact second, fact sizes, fact tsizes, fact hashes)
qed

text \<open>
  Claim C10. On an empty list of children the reducer takes the general path: it builds
  the parent node with no links and an empty block-size list, hands its serialization to
  persist, and returns, with the address persist gives, a size that is the length of that
  serialization alone. It fails only if persist does.
\<close>

theorem reducer_empty:
  "reducer I file block options [] w =
     (case persist I
             (encode I (prepare I
                \<lparr>Data = marshal I \<lparr>u_type = ''file'', u_data = None,
                                   u_mtime = file_mtime file, u_mode = file_mode file,
                                   u_blockSizes = []\<rparr>,
                 Links = []\<rparr>))
             block (persist_view options) w of
        (Inl e, w1) \<Rightarrow> (Inl e, [], w1)
      | (Inr c, w1) \<Rightarrow>
          (Inr \<lparr>d_cid = c, d_path = file_path file,
                d_unixfs = Some \<lparr>u_type = ''file'', u_data = None,
                                 u_mtime = file_mtime file, u_mode = file_mode file,
                                 u_blockSizes = []\<rparr>,
                d_size = int (length (encode I (prepare I
                           \<lparr>Data = marshal I \<lparr>u_type = ''file'', u_data = None,
                                              u_mtime = file_mtime file,
                                              u_mode = file_mode file,
                                              u_blockSizes = []\<rparr>,
                            Links = []\<rparr>))),
                d_single = False\<rparr>, [], w1))"
proof -
  have general: "\<not> single_leaf_path options []"
    by (simp add: single_leaf_path_def)
  have node: "parent_node I file [] =
                (\<lparr>Data = marshal I \<lparr>u_type = ''file'', u_data = None,
                                    u_mtime = file_mtime file, u_mode = file_mode file,
                                    u_blockSizes = []\<rparr>,
                  Links = []\<rparr>,
                 \<lparr>u_type = ''file'', u_data = None, u_mtime = file_mtime file,
                  u_mode = file_mode file, u_blockSizes = []\<rparr>)"
    by (simp add: parent_node_eq)
  show ?thesis
    by (simp add: reducer_not_single [OF general] reducer_general_eq node
        split: prod.splits sum.splits)
qed

theorem reducer_empty_witness:
  "reducer ex_imports ex_file ex_block ex_options [] ex_world =
     (Inr \<lparr>d_cid = \<lparr>cid_version = 0, cid_code = 0x70, cid_multihash = [0x0A, 0x08]\<rparr>,
           d_path = Some ''a.txt'',
           d_unixfs = Some \<lparr>u_type = ''file'', u_data = None, u_mtime = None,
                            u_mode = None, u_blockSizes = []\<rparr>,
           d_size = 2, d_single = False\<rparr>,
      [],
      \<lparr>store = [(\<lparr>cid_version = 0, cid_code = 0x70, cid_multihash = [0x0A, 0x08]\<rparr>,
                 [0x0A, 0x08])],
       reported = []\<rparr>)"
  by (simp add: reducer_empty ex_imports_def ex_file_def ex_options_def ex_world_def
      ex_persist_def ex_encode_def ex_marshal_def persist_view_def mc_DAG_PB_def Let_def)

subsection \<open>The single-leaf path\<close>

text \<open>
  Claim C2. A single child marked single, with the option enabled: if the file declares
  neither mtime nor mode, or the leaf is already framed (its address does not carry the
  raw codec, which is what line 78 tests), the reducer returns the leaf's own address,
  metadata and size under the file's path, leaves the leaf as it was, and calls neither
  the store nor persist: the world is unchanged.
\<close>

theorem single_leaf_promotion:
  assumes "d_single leaf"
    and "reduceSingleLeafToSelf options"
    and "(file_mtime file = None \<and> file_mode file = None) \<or>
         cid_code (d_cid leaf) \<noteq> rawCodec_code"
  shows "reducer I file block options [leaf] w =
           (Inr \<lparr>d_cid = d_cid leaf, d_path = file_path file, d_unixfs = d_unixfs leaf,
                 d_size = d_size leaf, d_single = False\<rparr>, [leaf], w)"
proof -
  from assms(3)
  have "reducer_single I file block options leaf w =
          (Inr \<lparr>d_cid = d_cid leaf, d_path = file_path file, d_unixfs = d_unixfs leaf,
                d_size = d_size leaf, d_single = False\<rparr>, leaf, w)"
    by (auto simp add: reducer_single_def)
  with assms(1,2) show ?thesis
    by (simp add: reducer_single_leaf)
qed

text \<open>
  The one-chunk file \<open>abc\<close> with raw leaves and no mtime or mode: after the Leaf Builder's
  task the store holds one block, and the reducer returns the leaf's address and leaves
  the store with that one block.
\<close>

theorem single_leaf_promotion_witness:
  "d_single (ex_leaf0\<lparr>d_single := True\<rparr>) \<and> reduceSingleLeafToSelf ex_options
   \<and> file_mtime ex_file = None \<and> file_mode ex_file = None
   \<and> reducer ex_imports ex_file ex_block ex_options [ex_leaf0\<lparr>d_single := True\<rparr>]
        \<lparr>store = [(d_cid ex_leaf0, [0x61, 0x62, 0x63])], reported = [(3, Some ''a.txt'')]\<rparr> =
       (Inr \<lparr>d_cid = d_cid ex_leaf0, d_path = Some ''a.txt'', d_unixfs = None,
             d_size = 3, d_single = False\<rparr>,
        [ex_leaf0\<lparr>d_single := True\<rparr>],
        \<lparr>store = [(d_cid ex_leaf0, [0x61, 0x62, 0x63])], reported = [(3, Some ''a.txt'')]\<rparr>)"
proof -
  have a: "d_single (ex_leaf0\<lparr>d_single := True\<rparr>)"
    by simp
  have b: "reduceSingleLeafToSelf ex_options"
    by (simp add: ex_options_def)
  have c: "file_mtime ex_file = None" and d: "file_mode ex_file = None"
    by (simp_all add: ex_file_def)
  from c d
  have e: "(file_mtime ex_file = None \<and> file_mode ex_file = None) \<or>
           cid_code (d_cid (ex_leaf0\<lparr>d_single := True\<rparr>)) \<noteq> rawCodec_code"
    by simp
  from single_leaf_promotion [OF a b e, of ex_imports ex_block
      "\<lparr>store = [(d_cid ex_leaf0, [0x61, 0x62, 0x63])], reported = [(3, Some ''a.txt'')]\<rparr>"]
  have f: "reducer ex_imports ex_file ex_block ex_options [ex_leaf0\<lparr>d_single := True\<rparr>]
        \<lparr>store = [(d_cid ex_leaf0, [0x61, 0x62, 0x63])], reported = [(3, Some ''a.txt'')]\<rparr> =
       (Inr \<lparr>d_cid = d_cid ex_leaf0, d_path = Some ''a.txt'', d_unixfs = None,
             d_size = 3, d_single = False\<rparr>,
        [ex_leaf0\<lparr>d_single := True\<rparr>],
        \<lparr>store = [(d_cid ex_leaf0, [0x61, 0x62, 0x63])], reported = [(3, Some ''a.txt'')]\<rparr>)"
    by (simp add: ex_leaf0_def ex_file_def)
  show ?thesis
    by (intro conjI) (fact a, fact b, fact c, fact d, fact f)
qed

text \<open>
  Claim C3. A single child marked single, with the option enabled, whose address carries
  the raw codec, for a file that declares an mtime or a mode: the reducer fetches the
  leaf's bytes from the store, wraps them in new metadata of type file with the file's
  mtime and mode, serializes that, and persists the serialization under the framed-node
  codec. When the store and persist succeed, the returned address is the one persist
  gives, the size is the length of the framed serialization, and the leaf object itself
  carries the new metadata, address and size.
\<close>

theorem single_leaf_upgrade:
  assumes "d_single leaf"
    and "reduceSingleLeafToSelf options"
    and "cid_code (d_cid leaf) = rawCodec_code"
    and "file_mtime file \<noteq> None \<or> file_mode file \<noteq> None"
    and "blk_get block (d_cid leaf) w = (Inr buffer, w1)"
    and "persist I
           (encode I (prepare I
              \<lparr>Data = marshal I \<lparr>u_type = ''file'', u_data = Some buffer,
                                 u_mtime = file_mtime file, u_mode = file_mode file,
                                 u_blockSizes = []\<rparr>,
               Links = []\<rparr>))
           block
           \<lparr>p_codec = Some mc_DAG_PB, p_cidVersion = cidVersion options,
            p_hasher = hasher options, p_onlyHash = onlyHash options\<rparr> w1 = (Inr c, w2)"
  shows "reducer I file block options [leaf] w =
           (let u = \<lparr>u_type = ''file'', u_data = Some buffer,
                     u_mtime = file_mtime file, u_mode = file_mode file,
                     u_blockSizes = []\<rparr>;
                framed = encode I (prepare I \<lparr>Data = marshal I u, Links = []\<rparr>)
            in (Inr \<lparr>d_cid = c, d_path = file_path file, d_unixfs = Some u,
                     d_size = int (length framed), d_single = False\<rparr>,
                [leaf\<lparr>d_cid := c, d_unixfs := Some u, d_size := int (length framed)\<rparr>],
                w2))"
proof -
  from assms(3-6)
  have "reducer_single I file block options leaf w =
          (let u = \<lparr>u_type = ''file'', u_data = Some buffer,
                    u_mtime = file_mtime file, u_mode = file_mode file,
                    u_blockSizes = []\<rparr>;
               framed = encode I (prepare I \<lparr>Data = marshal I u, Links = []\<rparr>)
           in (Inr \<lparr>d_cid = c, d_path = file_path file, d_unixfs = Some u,
                    d_size = int (length framed), d_single = False\<rparr>,
               leaf\<lparr>d_cid := c, d_unixfs := Some u, d_size := int (length framed)\<rparr>,
               w2))"
    by (auto simp add: reducer_single_def persist_view_def new_UnixFS_def Let_def)
  with assms(1,2) show ?thesis
    by (simp add: reducer_single_leaf Let_def)
qed

text \<open>
  The one-chunk file \<open>abc\<close> with raw leaves and a declared mtime: the bare leaf is in the
  store; the reducer reads it back, writes the framed block next to it and returns the
  framed address (codec \<open>0x70\<close>) and the framed length 5.
\<close>

theorem single_leaf_upgrade_witness:
  "reducer ex_imports (ex_file\<lparr>file_mtime := Some (1600000000, 0)\<rparr>) ex_block ex_options
     [ex_leaf0\<lparr>d_single := True\<rparr>]
     \<lparr>store = [(d_cid ex_leaf0, [0x61, 0x62, 0x63])], reported = [(3, Some ''a.txt'')]\<rparr> =
   (Inr \<lparr>d_cid = \<lparr>cid_version = 0, cid_code = 0x70,
                    cid_multihash = [0x0A, 0x08, 0x61, 0x62, 0x63]\<rparr>,
         d_path = Some ''a.txt'',
         d_unixfs = Some \<lparr>u_type = ''file'', u_data = Some [0x61, 0x62, 0x63],
                          u_mtime = Some (1600000000, 0), u_mode = None,
                          u_blockSizes = []\<rparr>,
         d_size = 5, d_single = False\<rparr>,
    [\<lparr>d_cid = \<lparr>cid_version = 0, cid_code = 0x70,
                cid_multihash = [0x0A, 0x08, 0x61, 0x62, 0x63]\<rparr>,
      d_path = None,
      d_unixfs = Some \<lparr>u_type = ''file'', u_data = Some [0x61, 0x62, 0x63],
                       u_mtime = Some (1600000000, 0), u_mode = None,
                       u_blockSizes = []\<rparr>,
      d_size = 5, d_single = True\<rparr>],
    \<lparr>store = [(d_cid ex_leaf0, [0x61, 0x62, 0x63]),
              (\<lparr>cid_version = 0, cid_code = 0x70,
                cid_multihash = [0x0A, 0x08, 0x61, 0x62, 0x63]\<rparr>,
               [0x0A, 0x08, 0x61, 0x62, 0x63])],
     reported = [(3, Some ''a.txt'')]\<rparr>)"
proof -
  let ?file = "ex_file\<lparr>file_mtime := Some (1600000000, 0)\<rparr>"
  let ?leaf = "ex_leaf0\<lparr>d_single := True\<rparr>"
  let ?w = "\<lparr>store = [(d_cid ex_leaf0, [0x61, 0x62, 0x63])],
             reported = [(3, Some ''a.txt'')]\<rparr>"
  let ?c = "\<lparr>cid_version = 0, cid_code = 0x70,
             cid_multihash = [0x0A, 0x08, 0x61, 0x62, 0x63]\<rparr>"
  let ?w2 = "\<lparr>store = [(d_cid ex_leaf0, [0x61, 0x62, 0x63]), (?c, [0x0A, 0x08, 0x61, 0x62, 0x63])],
              reported = [(3, Some ''a.txt'')]\<rparr>"
  have a: "d_single ?leaf"
    by simp
  have b: "reduceSingleLeafToSelf ex_options"
    by (simp add: ex_options_def)
  have c: "cid_code (d_cid ?leaf) = rawCodec_code"
    by (simp add: ex_leaf0_def rawCodec_code_def)
  have d: "file_mtime ?file \<noteq> None \<or> file_mode ?file \<noteq> None"
    by simp
  have e: "blk_get ex_block (d_cid ?leaf) ?w = (Inr [0x61, 0x62, 0x63], ?w)"
    by (simp add: ex_block_def ex_get_def)
  have f: "persist ex_imports
             (encode ex_imports (prepare ex_imports
                \<lparr>Data = marshal ex_imports
                          \<lparr>u_type = ''file'', u_data = Some [0x61, 0x62, 0x63],
                           u_mtime = file_mtime ?file, u_mode = file_mode ?file,
                           u_blockSizes = []\<rparr>,
                 Links = []\<rparr>))
             ex_block
             \<lparr>p_codec = Some mc_DAG_PB, p_cidVersion = cidVersion ex_options,
              p_hasher = hasher ex_options, p_onlyHash = onlyHash ex_options\<rparr> ?w =
           (Inr ?c, ?w2)"
    by (simp add: ex_imports_def ex_persist_def ex_encode_def ex_marshal_def ex_options_def
        mc_DAG_PB_def Let_def)
  from single_leaf_upgrade [OF a b c d e f] show ?thesis
    by (simp add: Let_def ex_imports_def ex_encode_def ex_marshal_def ex_file_def ex_leaf0_def)
qed

subsection \<open>Failures of the reducer\<close>

text \<open>
  Where none of the four calls throws, the reducer with throwing calls is the reducer of
  the sections above.
\<close>

lemma reducer_general_throwing_no_throws:
  "reducer_general_throwing I no_throws file block options leaves w =
     reducer_general I file block options leaves w"
  by (simp add: reducer_general_throwing_def reducer_general_def parent_node_def
      call_new_UnixFS_def call_marshal_def call_prepare_def call_encode_def no_throws_def
      Let_def split: prod.splits)

lemma reducer_single_throwing_no_throws:
  "reducer_single_throwing I no_throws file block options leaf w =
     reducer_single I file block options leaf w"
proof (cases "cid_code (d_cid leaf) = rawCodec_code \<and>
                (file_mtime file \<noteq> None \<or> file_mode file \<noteq> None)")
  case True
  show ?thesis
    unfolding reducer_single_throwing_def reducer_single_def
    by (simp only: if_P [OF True])
      (simp add: call_new_UnixFS_def call_marshal_def call_prepare_def call_encode_def
        no_throws_def Let_def split: prod.splits sum.splits)
next
  case False
  show ?thesis
    unfolding reducer_single_throwing_def reducer_single_def
    by (simp only: if_not_P [OF False])
qed

lemma reducer_throwing_no_throws:
  "reducer_throwing I no_throws file block options leaves w =
     reducer I file block options leaves w"
  by (simp add: reducer_throwing_def reducer_def reducer_general_throwing_no_throws
      reducer_single_throwing_no_throws)

lemma reducer_general_throwing_failure:
  "fst (reducer_general_throwing I T file block options leaves w) = Inl e \<longleftrightarrow>
     (case new_UnixFS_throws T ''file'' None (file_mtime file) (file_mode file) of
        Some e' \<Rightarrow> e' = e
      | None \<Rightarrow>
     (case marshal_throws T (snd (parent_node I file leaves)) of
        Some e' \<Rightarrow> e' = e
      | None \<Rightarrow>
     (case prepare_throws T (fst (parent_node I file leaves)) of
        Some e' \<Rightarrow> e' = e
      | None \<Rightarrow>
     (case encode_throws T (prepare I (fst (parent_node I file leaves))) of
        Some e' \<Rightarrow> e' = e
      | None \<Rightarrow>
          fst (persist I (encode I (prepare I (fst (parent_node I file leaves)))) block
                 (persist_view options) w) = Inl e))))"
proof -
  obtain links f1 where ll:
    "link_leaves I (new_UnixFS ''file'' None (file_mtime file) (file_mode file))
       (filter (keep_leaf I) leaves) = (links, f1)"
    by (cases "link_leaves I (new_UnixFS ''file'' None (file_mtime file) (file_mode file))
                 (filter (keep_leaf I) leaves)")
  then have pn: "parent_node I file leaves = (\<lparr>Data = marshal I f1, Links = links\<rparr>, f1)"
    by (simp add: parent_node_def)
  show ?thesis
    by (auto simp add: reducer_general_throwing_def call_new_UnixFS_def call_marshal_def
        call_prepare_def call_encode_def ll pn Let_def
        split: option.splits prod.splits sum.splits)
qed

lemma reducer_single_throwing_failure:
  "fst (reducer_single_throwing I T file block options leaf w) = Inl e \<longleftrightarrow>
     cid_code (d_cid leaf) = rawCodec_code \<and>
     (file_mtime file \<noteq> None \<or> file_mode file \<noteq> None) \<and>
     (case blk_get block (d_cid leaf) w of
        (Inl e', w1) \<Rightarrow> e' = e
      | (Inr buffer, w1) \<Rightarrow>
     (case new_UnixFS_throws T ''file'' (Some buffer) (file_mtime file) (file_mode file) of
        Some e' \<Rightarrow> e' = e
      | None \<Rightarrow>
     (case marshal_throws T
             (new_UnixFS ''file'' (Some buffer) (file_mtime file) (file_mode file)) of
        Some e' \<Rightarrow> e' = e
      | None \<Rightarrow>
     (case prepare_throws T
             \<lparr>Data = marshal I (new_UnixFS ''file'' (Some buffer)
                                 (file_mtime file) (file_mode file)),
              Links = []\<rparr> of
        Some e' \<Rightarrow> e' = e
      | None \<Rightarrow>
     (case encode_throws T
             (prepare I
                \<lparr>Data = marshal I (new_UnixFS ''file'' (Some buffer)
                                   (file_mtime file) (file_mode file)),
                 Links = []\<rparr>) of
        Some e' \<Rightarrow> e' = e
      | None \<Rightarrow>
          fst (persist I
                 (encode I (prepare I
                    \<lparr>Data = marshal I (new_UnixFS ''file'' (Some buffer)
                                       (file_mtime file) (file_mode file)),
                     Links = []\<rparr>))
                 block
                 \<lparr>p_codec = Some mc_DAG_PB, p_cidVersion = cidVersion options,
                  p_hasher = hasher options, p_onlyHash = onlyHash options\<rparr> w1) = Inl e)))))"
  by (auto simp add: reducer_single_throwing_def call_new_UnixFS_def call_marshal_def
      call_prepare_def call_encode_def persist_view_def Let_def
      split: option.splits prod.splits sum.splits)

text \<open>
  Claim C9, as the code has it. The reducer examines no length field of its children and
  raises no error of its own, in particular no accounting error. It fails exactly when
  one of the calls it makes fails, and then with the error of the first call that fails,
  unchanged: on the single-leaf path with a raw-codec leaf and a declared mtime or mode
  these calls are the store's get, the metadata constructor, marshal, prepare, encode and
  persist; on the general path they are the metadata constructor, marshal, prepare,
  encode and persist. So a failure of persist is propagated unchanged, and an error that
  none of these calls ever produces is never the reducer's. When every call succeeds the
  reducer returns a descriptor, whatever the children's fields say.
\<close>

theorem reducer_throwing_failure:
  "(fst (reducer_throwing I T file block options leaves w) = Inl e \<longleftrightarrow>
     (if single_leaf_path options leaves
      then
        cid_code (d_cid (leaves ! 0)) = rawCodec_code \<and>
        (file_mtime file \<noteq> None \<or> file_mode file \<noteq> None) \<and>
        (case blk_get block (d_cid (leaves ! 0)) w of
           (Inl e', w1) \<Rightarrow> e' = e
         | (Inr buffer, w1) \<Rightarrow>
        (case new_UnixFS_throws T ''file'' (Some buffer) (file_mtime file) (file_mode file) of
           Some e' \<Rightarrow> e' = e
         | None \<Rightarrow>
        (case marshal_throws T
                (new_UnixFS ''file'' (Some buffer) (file_mtime file) (file_mode file)) of
           Some e' \<Rightarrow> e' = e
         | None \<Rightarrow>
        (case prepare_throws T
                \<lparr>Data = marshal I (new_UnixFS ''file'' (Some buffer)
                                    (file_mtime file) (file_mode file)),
                 Links = []\<rparr> of
           Some e' \<Rightarrow> e' = e
         | None \<Rightarrow>
        (case encode_throws T
                (prepare I
                   \<lparr>Data = marshal I (new_UnixFS ''file'' (Some buffer)
                                      (file_mtime file) (file_mode file)),
                    Links = []\<rparr>) of
           Some e' \<Rightarrow> e' = e
         | None \<Rightarrow>
             fst (persist I
                    (encode I (prepare I
                       \<lparr>Data = marshal I (new_UnixFS ''file'' (Some buffer)
                                          (file_mtime file) (file_mode file)),
                        Links = []\<rparr>))
                    block
                    \<lparr>p_codec = Some mc_DAG_PB, p_cidVersion = cidVersion options,
                     p_hasher = hasher options, p_onlyHash = onlyHash options\<rparr> w1) =
               Inl e)))))
      else
        (case new_UnixFS_throws T ''file'' None (file_mtime file) (file_mode file) of
           Some e' \<Rightarrow> e' = e
         | None \<Rightarrow>
        (case marshal_throws T (snd (parent_node I file leaves)) of
           Some e' \<Rightarrow> e' = e
         | None \<Rightarrow>
        (case prepare_throws T (fst (parent_node I file leaves)) of
           Some e' \<Rightarrow> e' = e
         | None \<Rightarrow>
        (case encode_throws T (prepare I (fst (parent_node I file leaves))) of
           Some e' \<Rightarrow> e' = e
         | None \<Rightarrow>
             fst (persist I (encode I (prepare I (fst (parent_node I file leaves)))) block
                    (persist_view options) w) = Inl e))))))
   \<and> ((\<forall>c w0. fst (blk_get block c w0) \<noteq> Inl e) \<and>
       (\<forall>b opts w0. fst (persist I b block opts w0) \<noteq> Inl e) \<and>
       (\<forall>t dat mt md. new_UnixFS_throws T t dat mt md \<noteq> Some e) \<and>
       (\<forall>u. marshal_throws T u \<noteq> Some e) \<and>
       (\<forall>node. prepare_throws T node \<noteq> Some e) \<and>
       (\<forall>node. encode_throws T node \<noteq> Some e)
       \<longrightarrow> fst (reducer_throwing I T file block options leaves w) \<noteq> Inl e)"
  (is "?exact \<and> (?none \<longrightarrow> ?never)")
proof (cases "single_leaf_path options leaves")
  case True
  then have path: "fst (reducer_throwing I T file block options leaves w) =
                     fst (reducer_single_throwing I T file block options (leaves ! 0) w)"
    by (simp add: reducer_throwing_def split: prod.splits)
  have exact: ?exact
    by (simp only: path True if_True reducer_single_throwing_failure)
  have never: ?never if none: ?none
  proof
    assume "fst (reducer_throwing I T file block options leaves w) = Inl e"
    then have "fst (reducer_single_throwing I T file block options (leaves ! 0) w) = Inl e"
      by (simp only: path)
    with none show False
      by (simp only: reducer_single_throwing_failure)
        (auto split: prod.splits sum.splits option.splits simp add: fst_def)
  qed
  from exact never show ?thesis
    by blast
next
  case False
  then have path: "fst (reducer_throwing I T file block options leaves w) =
                     fst (reducer_general_throwing I T file block options leaves w)"
    by (simp add: reducer_throwing_def split: prod.splits)
  have exact: ?exact
    by (simp only: path False if_False reducer_general_throwing_failure)
  have never: ?never if none: ?none
  proof
    assume "fst (reducer_throwing I T file block options leaves w) = Inl e"
    then have "fst (reducer_general_throwing I T file block options leaves w) = Inl e"
      by (simp only: path)
    with none show False
      by (simp only: reducer_general_throwing_failure)
        (auto split: prod.splits sum.splits option.splits simp add: fst_def)
  qed
  from exact never show ?thesis
    by blast
qed

text \<open>
  With an empty store the single-leaf upgrade fails with the store's own error; with a
  serializer that rejects a link of negative size, a child of negative size makes the
  general path fail with the serializer's own error; and since neither the store nor
  persist nor the serializer of the example ever produces an accounting error, the
  reducer does not fail with one on the child whose size contradicts its inline data.
\<close>

theorem reducer_throwing_failure_witness:
  "fst (reducer_throwing ex_imports ex_throws (ex_file\<lparr>file_mtime := Some (1600000000, 0)\<rparr>)
          ex_block ex_options [ex_leaf0\<lparr>d_single := True\<rparr>] ex_world) = Inl StoreError
   \<and> fst (reducer_throwing ex_imports ex_throws ex_file ex_block ex_options
             [ex_inconsistent] ex_world) = Inl EncodingError
   \<and> fst (reducer_throwing ex_imports ex_throws ex_file ex_block ex_options
             [ex_mismatch] ex_world) \<noteq> Inl AccountingError"
proof -
  have single: "single_leaf_path ex_options [ex_leaf0\<lparr>d_single := True\<rparr>]"
    by (simp add: single_leaf_path_def ex_options_def)
  have general: "\<not> single_leaf_path ex_options [ex_inconsistent]"
    by (simp add: single_leaf_path_def ex_inconsistent_def)
  have a: "fst (reducer_throwing ex_imports ex_throws
                  (ex_file\<lparr>file_mtime := Some (1600000000, 0)\<rparr>) ex_block ex_options
                  [ex_leaf0\<lparr>d_single := True\<rparr>] ex_world) = Inl StoreError"
    by (simp only: reducer_throwing_failure [THEN conjunct1] single if_True)
      (simp add: ex_leaf0_def rawCodec_code_def ex_block_def ex_get_def ex_world_def)
  have node: "Links (fst (parent_node ex_imports ex_file [ex_inconsistent])) =
                [\<lparr>Name = [], Tsize = - 5, Hash = d_cid ex_inconsistent\<rparr>]"
    by (simp add: parent_node_eq keep_leaf_def child_link_def ex_inconsistent_def
        ex_imports_def ex_fileSize_def)
  have b: "fst (reducer_throwing ex_imports ex_throws ex_file ex_block ex_options
                  [ex_inconsistent] ex_world) = Inl EncodingError"
    by (simp only: reducer_throwing_failure [THEN conjunct1] general if_False)
      (simp add: ex_throws_def ex_imports_def node [unfolded ex_imports_def])
  have none: "(\<forall>c w0. fst (blk_get ex_block c w0) \<noteq> Inl AccountingError) \<and>
       (\<forall>b opts w0. fst (persist ex_imports b ex_block opts w0) \<noteq> Inl AccountingError) \<and>
       (\<forall>t dat mt md. new_UnixFS_throws ex_throws t dat mt md \<noteq> Some AccountingError) \<and>
       (\<forall>u. marshal_throws ex_throws u \<noteq> Some AccountingError) \<and>
       (\<forall>node. prepare_throws ex_throws node \<noteq> Some AccountingError) \<and>
       (\<forall>node. encode_throws ex_throws node \<noteq> Some AccountingError)"
    by (simp add: ex_block_def ex_get_def ex_imports_def ex_persist_def ex_throws_def Let_def
        split: option.splits)
  from reducer_throwing_failure [THEN conjunct2, rule_format, OF none]
  have c: "fst (reducer_throwing ex_imports ex_throws ex_file ex_block ex_options
                  [ex_mismatch] ex_world) \<noteq> Inl AccountingError" .
  show ?thesis
    by (intro conjI) (fact a, fact b, fact c)
qed

text \<open>
  The claim as stated fails. A child that claims three bytes of inline data under a
  physical size of one byte is linked and summed like any other: the reducer returns a
  parent with the block size 3 and the size \<open>4 + 1\<close>. And at the claim's own example, a
  child with metadata and negative length fields, the failure is not an accounting error
  of the reducer but the error the serializer throws at line 178, before persist is
  reached.
\<close>

theorem no_accounting_error_counterexample:
  "fst (reducer_throwing ex_imports ex_throws ex_file ex_block ex_options
          [ex_mismatch] ex_world) =
     Inr \<lparr>d_cid = \<lparr>cid_version = 0, cid_code = 0x70,
                    cid_multihash = [0x0A, 0x08, 0x20, 0x12]\<rparr>,
          d_path = Some ''a.txt'',
          d_unixfs = Some \<lparr>u_type = ''file'', u_data = None, u_mtime = None,
                           u_mode = None, u_blockSizes = [3]\<rparr>,
          d_size = 5, d_single = False\<rparr>
   \<and> reducer_throwing ex_imports ex_throws ex_file ex_block ex_options
         [ex_inconsistent] ex_world =
       (Inl EncodingError, [ex_inconsistent], ex_world)"
  by (simp add: reducer_throwing_def single_leaf_path_def reducer_general_throwing_def
      call_new_UnixFS_def call_marshal_def call_prepare_def call_encode_def
      keep_leaf_def link_leaf_def addBlockSize_def new_UnixFS_def persist_view_def
      ex_mismatch_def ex_inconsistent_def ex_imports_def ex_throws_def ex_fileSize_def
      ex_persist_def ex_encode_def ex_marshal_def ex_file_def ex_options_def ex_world_def
      rawCodec_code_def mc_DAG_PB_def Let_def)

end
